theory Spec2Isabelle
  imports Complex_Main "HOL-Library.Sublist" "HOL-Library.AList"
begin

section \<open>Python strings\<close>

text \<open>
  A Python \<open>str\<close> is a sequence of code points and \<open>len\<close> counts code points. The
  strings of this development are \<^typ>\<open>string\<close>s whose characters are read as the code
  points 0 to 255 (ASCII and Latin-1, which covers every literal of the matching
  engine: \<open>CHR 0xE7\<close> is c-cedilla, \<open>CHR 0xE3\<close> is a-tilde, and so on).

  \<open>x in y\<close> on two strings is the contiguous-substring test, \<^const>\<open>sublist\<close>.
\<close>

definition py_lower_char :: "char \<Rightarrow> char" where
  \<comment> \<open>\<open>str.lower\<close> on one code point below 256: A-Z and the Latin-1 capitals
      (0xC0-0xDE without the multiplication sign 0xD7) move up by 32\<close>
  "py_lower_char c =
     (let n = (of_char c :: nat)
      in if (65 \<le> n \<and> n \<le> 90) \<or> (192 \<le> n \<and> n \<le> 222 \<and> n \<noteq> 215)
         then char_of (n + 32) else c)"

definition py_lower :: "string \<Rightarrow> string" where
  "py_lower s = map py_lower_char s"

definition py_isspace :: "char \<Rightarrow> bool" where
  \<comment> \<open>the code points below 256 that \<open>str.isspace\<close> accepts\<close>
  "py_isspace c =
     (let n = (of_char c :: nat)
      in (9 \<le> n \<and> n \<le> 13) \<or> (28 \<le> n \<and> n \<le> 32) \<or> n = 133 \<or> n = 160)"

definition py_strip :: "string \<Rightarrow> string" where
  "py_strip s = rev (dropWhile py_isspace (rev (dropWhile py_isspace s)))"

section \<open>MatchService: skills\<close>

definition skill_in_resume :: "string list \<Rightarrow> string \<Rightarrow> bool" where
  \<comment> \<open>\<open>any(s in skill or skill in s for s in resume_skills_norm)\<close>\<close>
  "skill_in_resume resume_skills_norm skill =
     list_ex (\<lambda>s. sublist s skill \<or> sublist skill s) resume_skills_norm"

definition calculate_skills_match :: "string list \<Rightarrow> string list \<Rightarrow> real" where
  "calculate_skills_match resume_skills job_skills =
     (if job_skills = [] then 1
      else if resume_skills = [] then 0
      else
        let resume_skills_norm = map py_lower resume_skills;
            job_skills_norm = map py_lower job_skills;
            matches = length (filter (skill_in_resume resume_skills_norm) job_skills_norm);
            score = real matches / real (length job_skills_norm)
        in if length resume_skills_norm > length job_skills_norm
           then
             let bonus = min (15 / 100)
                   ((real (length resume_skills_norm) - real (length job_skills_norm))
                      / real (length job_skills_norm) * (15 / 100))
             in min 1 (score + bonus)
           else score)"

definition surplus_score :: "real \<Rightarrow> real \<Rightarrow> real \<Rightarrow> real" where
  \<comment> \<open>the score of \<open>m\<close> matches among \<open>n\<close> job skills for a r\'esum\'e of \<open>r\<close> skills\<close>
  "surplus_score m n r =
     (if r > n then min 1 (m / n + min (15 / 100) ((r - n) / n * (15 / 100))) else m / n)"

fun resume_has :: "string \<Rightarrow> string list \<Rightarrow> bool" where
  \<comment> \<open>the inner loop of \<open>_identify_skill_gaps\<close>: runs over the resume skills and
      leaves at the first one that contains, or is contained in, the job skill\<close>
  "resume_has job_skill_lower [] = False"
| "resume_has job_skill_lower (resume_skill # rest) =
     (let resume_skill_lower = py_lower resume_skill
      in if sublist job_skill_lower resume_skill_lower
            \<or> sublist resume_skill_lower job_skill_lower
         then True
         else resume_has job_skill_lower rest)"

fun matching_loop :: "string list \<Rightarrow> string list \<Rightarrow> string list \<Rightarrow> string list" where
  "matching_loop resume_skills [] matching_skills = matching_skills"
| "matching_loop resume_skills (job_skill # rest) matching_skills =
     matching_loop resume_skills rest
       (if resume_has (py_lower job_skill) resume_skills
        then (if job_skill \<notin> set matching_skills
              then matching_skills @ [job_skill] else matching_skills)
        else matching_skills)"

fun missing_loop :: "string list \<Rightarrow> string list \<Rightarrow> string list \<Rightarrow> string list" where
  "missing_loop matching_skills [] missing_skills = missing_skills"
| "missing_loop matching_skills (job_skill # rest) missing_skills =
     missing_loop matching_skills rest
       (if job_skill \<notin> set matching_skills
        then missing_skills @ [job_skill] else missing_skills)"

definition identify_skill_gaps :: "string list \<Rightarrow> string list \<Rightarrow> string list \<times> string list" where
  "identify_skill_gaps resume_skills job_skills =
     (let matching_skills = matching_loop resume_skills job_skills [];
          missing_skills = missing_loop matching_skills job_skills []
      in (matching_skills, missing_skills))"

section \<open>difflib.SequenceMatcher\<close>

text \<open>
  \<open>SequenceMatcher(None, a, b).ratio()\<close> of the Python standard library, for two strings
  and no junk predicate. \<open>find_longest_match\<close> returns the longest block common to
  \<open>a\<close> and \<open>b\<close> that holds no popular element, the one that starts earliest in \<open>a\<close>
  and, among those, earliest in \<open>b\<close>, and then extends it on both ends while the
  neighbouring elements agree. An element of \<open>b\<close> is popular when \<open>b\<close> has at least 200
  elements and the element occurs more than \<open>len(b) // 100 + 1\<close> times. The matching
  blocks are found by recursion on the pieces to the left and to the right of that block;
  \<open>ratio\<close> is \<open>2 * M / T\<close> for \<open>M\<close> matched elements out of \<open>T\<close> in both strings.
\<close>

definition bpopular :: "string \<Rightarrow> char list" where
  "bpopular b =
     (if length b \<ge> 200
      then filter (\<lambda>elt. count_list b elt > length b div 100 + 1) (remdups b)
      else [])"

fun common_len :: "char list \<Rightarrow> string \<Rightarrow> string \<Rightarrow> nat" where
  "common_len popular (x # xs) (y # ys) =
     (if x = y \<and> x \<notin> set popular then Suc (common_len popular xs ys) else 0)"
| "common_len popular xs ys = 0"

fun scan_b :: "char list \<Rightarrow> string \<Rightarrow> nat \<Rightarrow> string \<Rightarrow> nat \<Rightarrow> nat \<times> nat \<times> nat
                \<Rightarrow> nat \<times> nat \<times> nat" where
  "scan_b popular as i [] j best = best"
| "scan_b popular as i (y # ys) j (besti, bestj, bestsize) =
     scan_b popular as i ys (Suc j)
       (let k = common_len popular as (y # ys)
        in if k > bestsize then (i, j, k) else (besti, bestj, bestsize))"

fun scan_a :: "char list \<Rightarrow> string \<Rightarrow> nat \<Rightarrow> string \<Rightarrow> nat \<times> nat \<times> nat
                \<Rightarrow> nat \<times> nat \<times> nat" where
  "scan_a popular [] i b best = best"
| "scan_a popular (x # xs) i b best =
     scan_a popular xs (Suc i) b (scan_b popular (x # xs) i b 0 best)"

definition find_longest_match :: "char list \<Rightarrow> string \<Rightarrow> string \<Rightarrow> nat \<times> nat \<times> nat" where
  "find_longest_match popular a b =
     (case scan_a popular a 0 b (0, 0, 0) of
        (besti, bestj, bestsize) \<Rightarrow>
          let l = common_len [] (rev (take besti a)) (rev (take bestj b));
              besti = besti - l; bestj = bestj - l; bestsize = bestsize + l;
              r = common_len [] (drop (besti + bestsize) a) (drop (bestj + bestsize) b)
          in (besti, bestj, bestsize + r))"

lemma common_len_le: "common_len p xs ys \<le> length xs \<and> common_len p xs ys \<le> length ys"
  by (induction p xs ys rule: common_len.induct) auto

lemma scan_b_inv:
  assumes "fst best + snd (snd best) \<le> n" "i + length as = n"
  shows "fst (scan_b p as i ys j best) + snd (snd (scan_b p as i ys j best)) \<le> n"
  using assms
proof (induction ys arbitrary: j best)
  case Nil
  then show ?case by simp
next
  case (Cons y ys)
  obtain bi bj bk where b: "best = (bi, bj, bk)" by (cases best) auto
  have c: "common_len p as (y # ys) \<le> length as" using common_len_le by blast
  show ?case unfolding b scan_b.simps
    by (rule Cons.IH) (use Cons.prems b c in \<open>auto simp: Let_def\<close>)
qed

lemma scan_a_inv:
  assumes "fst best + snd (snd best) \<le> n" "i + length as = n"
  shows "fst (scan_a p as i b best) + snd (snd (scan_a p as i b best)) \<le> n"
  using assms
proof (induction as arbitrary: i best)
  case Nil
  then show ?case by simp
next
  case (Cons x xs)
  have "fst (scan_b p (x # xs) i b 0 best) + snd (snd (scan_b p (x # xs) i b 0 best)) \<le> n"
    by (rule scan_b_inv) (use Cons.prems in auto)
  then show ?case unfolding scan_a.simps
    by (rule Cons.IH) (use Cons.prems in auto)
qed

lemma find_longest_match_bound:
  assumes "find_longest_match p a b = (i, j, k)"
  shows "i + k \<le> length a"
proof -
  obtain bi bj bk where s: "scan_a p a 0 b (0, 0, 0) = (bi, bj, bk)"
    by (cases "scan_a p a 0 b (0, 0, 0)") auto
  have "fst (scan_a p a 0 b (0, 0, 0)) + snd (snd (scan_a p a 0 b (0, 0, 0))) \<le> length a"
    by (rule scan_a_inv) auto
  then have 1: "bi + bk \<le> length a" using s by simp
  define l where "l = common_len [] (rev (take bi a)) (rev (take bj b))"
  define r where "r = common_len [] (drop (bi - l + (bk + l)) a) (drop (bj - l + (bk + l)) b)"
  have l: "l \<le> bi" using common_len_le[of "[]" "rev (take bi a)" "rev (take bj b)"]
    unfolding l_def by simp
  have r: "r \<le> length a - (bi - l + (bk + l))"
    using common_len_le[of "[]" "drop (bi - l + (bk + l)) a"] unfolding r_def by simp
  have "find_longest_match p a b = (bi - l, bj - l, bk + l + r)"
    by (simp add: find_longest_match_def s Let_def l_def r_def)
  then have "i = bi - l" "k = bk + l + r"
    using assms by simp_all
  then show ?thesis using 1 l r by simp
qed

function matching_count :: "char list \<Rightarrow> string \<Rightarrow> string \<Rightarrow> nat" where
  "matching_count popular a b =
     (case find_longest_match popular a b of
        (i, j, k) \<Rightarrow>
          if k = 0 then 0
          else k
            + (if 0 < i \<and> 0 < j
               then matching_count popular (take i a) (take j b) else 0)
            + (if i + k < length a \<and> j + k < length b
               then matching_count popular (drop (i + k) a) (drop (j + k) b) else 0))"
  by pat_completeness auto
termination
  apply (relation "measure (\<lambda>(popular, a, b). length a)")
    apply simp
   apply (auto dest: find_longest_match_bound [OF sym])
  done

definition ratio :: "string \<Rightarrow> string \<Rightarrow> real" where
  \<comment> \<open>\<open>SequenceMatcher(None, a, b).ratio()\<close>\<close>
  "ratio a b =
     (let matches = matching_count (bpopular b) a b;
          total = length a + length b
      in if total = 0 then 1 else 2 * real matches / real total)"

section \<open>SkillMapper\<close>

text \<open>
  The three tables of a \<open>SkillMapper\<close>. A Python \<open>dict\<close> keeps its keys in insertion
  order and the loops below run over them in that order, so each table is an
  association list; a store to an existing key replaces the value where the key stands
  and a store to a new key appends it (\<^const>\<open>AList.update\<close>).
\<close>

record SkillMapper =
  skill_map :: "(string \<times> string) list"
  categories :: "(string \<times> string list) list"
  synonyms :: "(string \<times> string list) list"

definition py_upper_first :: "char \<Rightarrow> string" where
  \<comment> \<open>\<open>skill[0].upper()\<close> on a code point below 256: a-z and the Latin-1 small letters
      (0xE0-0xFE without the division sign 0xF7) move down by 32, sharp s (0xDF) becomes
      \<open>SS\<close>; the micro sign and y-diaeresis, whose capitals lie above 255, are kept\<close>
  "py_upper_first c =
     (let n = (of_char c :: nat)
      in if (97 \<le> n \<and> n \<le> 122) \<or> (224 \<le> n \<and> n \<le> 254 \<and> n \<noteq> 247)
         then [char_of (n - 32)]
         else if n = 223 then ''SS'' else [c])"

fun normalize_loop :: "string \<Rightarrow> (string \<times> string) list \<Rightarrow> string option \<times> real
                         \<Rightarrow> string option \<times> real" where
  "normalize_loop normalized [] best = best"
| "normalize_loop normalized ((key, value) # rest) (best_match, best_score) =
     normalize_loop normalized rest
       (if sublist key normalized \<or> sublist normalized key
        then (if real (length key) > best_score
              then (Some value, real (length key)) else (best_match, best_score))
        else if ratio key normalized > 8 / 10
        then (let match_score = ratio key normalized * real (length key)
              in if match_score > best_score
                 then (Some value, match_score) else (best_match, best_score))
        else (best_match, best_score))"

definition normalize_skill :: "SkillMapper \<Rightarrow> string \<Rightarrow> string" where
  "normalize_skill self skill =
     (if skill = [] then []
      else
        let normalized = py_lower (py_strip skill)
        in case map_of (skill_map self) normalized of
             Some value \<Rightarrow> value
           | None \<Rightarrow>
               (case fst (normalize_loop normalized (skill_map self) (None, 0)) of
                  Some best_match \<Rightarrow>
                    if best_match \<noteq> [] then best_match
                    else py_upper_first (hd skill) @ tl skill
                | None \<Rightarrow> py_upper_first (hd skill) @ tl skill))"

definition add_skill_mapping :: "SkillMapper \<Rightarrow> string \<Rightarrow> string \<Rightarrow> string option \<Rightarrow> SkillMapper" where
  "add_skill_mapping self variant normalized category =
     (let variant = py_lower (py_strip variant)
      in if variant = [] \<or> normalized = [] then self
         else
           let self = self\<lparr>skill_map := AList.update variant normalized (skill_map self)\<rparr>
           in case category of
                None \<Rightarrow> self
              | Some c \<Rightarrow>
                  (case map_of (categories self) c of
                     None \<Rightarrow> self
                   | Some skills \<Rightarrow>
                       if c = [] then self
                       else self\<lparr>categories :=
                              AList.update c (List.insert normalized skills) (categories self)\<rparr>))"

definition default_skill_map :: "(string \<times> string) list" where
  "default_skill_map =
     [(''javascript'', ''JavaScript''),
      (''js'', ''JavaScript''),
      (''typescript'', ''TypeScript''),
      (''ts'', ''TypeScript''),
      (''python'', ''Python''),
      (''py'', ''Python''),
      (''java'', ''Java''),
      (''c#'', ''C#''),
      (''csharp'', ''C#''),
      (''c++'', ''C++''),
      (''cpp'', ''C++''),
      (''php'', ''PHP''),
      (''ruby'', ''Ruby''),
      (''go'', ''Go''),
      (''golang'', ''Go''),
      (''swift'', ''Swift''),
      (''kotlin'', ''Kotlin''),
      (''rust'', ''Rust''),
      (''scala'', ''Scala''),
      (''perl'', ''Perl''),
      (''r'', ''R (language)''),
      (''react'', ''React''),
      (''reactjs'', ''React''),
      (''react.js'', ''React''),
      (''angular'', ''Angular''),
      (''angularjs'', ''AngularJS''),
      (''angular.js'', ''AngularJS''),
      (''vue'', ''Vue.js''),
      (''vuejs'', ''Vue.js''),
      (''vue.js'', ''Vue.js''),
      (''node'', ''Node.js''),
      (''nodejs'', ''Node.js''),
      (''node.js'', ''Node.js''),
      (''express'', ''Express.js''),
      (''expressjs'', ''Express.js''),
      (''django'', ''Django''),
      (''flask'', ''Flask''),
      (''spring'', ''Spring''),
      (''spring boot'', ''Spring Boot''),
      (''.net'', ''.NET''),
      (''dotnet'', ''.NET''),
      (''laravel'', ''Laravel''),
      (''rails'', ''Ruby on Rails''),
      (''ror'', ''Ruby on Rails''),
      (''ruby on rails'', ''Ruby on Rails''),
      (''sql'', ''SQL''),
      (''nosql'', ''NoSQL''),
      (''postgresql'', ''PostgreSQL''),
      (''postgres'', ''PostgreSQL''),
      (''mysql'', ''MySQL''),
      (''mongo'', ''MongoDB''),
      (''mongodb'', ''MongoDB''),
      (''oracle'', ''Oracle''),
      (''sqlserver'', ''SQL Server''),
      (''sql server'', ''SQL Server''),
      (''sqlite'', ''SQLite''),
      (''redis'', ''Redis''),
      (''elasticsearch'', ''Elasticsearch''),
      (''elastic search'', ''Elasticsearch''),
      (''dynamo'', ''DynamoDB''),
      (''dynamodb'', ''DynamoDB''),
      (''aws'', ''AWS''),
      (''amazon web services'', ''AWS''),
      (''azure'', ''Azure''),
      (''microsoft azure'', ''Azure''),
      (''gcp'', ''Google Cloud''),
      (''google cloud'', ''Google Cloud''),
      (''firebase'', ''Firebase''),
      (''heroku'', ''Heroku''),
      (''docker'', ''Docker''),
      (''kubernetes'', ''Kubernetes''),
      (''k8s'', ''Kubernetes''),
      (''jenkins'', ''Jenkins''),
      (''git'', ''Git''),
      (''github'', ''GitHub''),
      (''gitlab'', ''GitLab''),
      (''bitbucket'', ''Bitbucket''),
      (''vs code'', ''Visual Studio Code''),
      (''vscode'', ''Visual Studio Code''),
      (''visual studio'', ''Visual Studio''),
      (''intellij'', ''IntelliJ IDEA''),
      (''pycharm'', ''PyCharm''),
      (''webstorm'', ''WebStorm''),
      (''eclipse'', ''Eclipse''),
      (''jira'', ''Jira''),
      (''confluence'', ''Confluence''),
      (''trello'', ''Trello''),
      (''slack'', ''Slack''),
      (''photoshop'', ''Adobe Photoshop''),
      (''illustrator'', ''Adobe Illustrator''),
      (''xd'', ''Adobe XD''),
      (''figma'', ''Figma''),
      (''sketch'', ''Sketch''),
      (''agile'', ''Agile''),
      ([CHR 0xE1] @ ''gil'', ''Agile''),
      (''scrum'', ''Scrum''),
      (''kanban'', ''Kanban''),
      (''lean'', ''Lean''),
      (''waterfall'', ''Waterfall''),
      (''cascata'', ''Waterfall''),
      (''tdd'', ''TDD''),
      (''bdd'', ''BDD''),
      (''xp'', ''XP''),
      (''extreme programming'', ''XP''),
      (''devops'', ''DevOps''),
      (''ci/cd'', ''CI/CD''),
      (''cicd'', ''CI/CD''),
      (''continuous integration'', ''CI/CD''),
      (''continuous delivery'', ''CI/CD''),
      (''comunica'' @ [CHR 0xE7, CHR 0xE3] @ ''o'', ''Comunica'' @ [CHR 0xE7, CHR 0xE3] @ ''o''),
      (''communication'', ''Comunica'' @ [CHR 0xE7, CHR 0xE3] @ ''o''),
      (''trabalho em equipe'', ''Trabalho em Equipe''),
      (''teamwork'', ''Trabalho em Equipe''),
      (''lideran'' @ [CHR 0xE7] @ ''a'', ''Lideran'' @ [CHR 0xE7] @ ''a''),
      (''leadership'', ''Lideran'' @ [CHR 0xE7] @ ''a''),
      (''resolu'' @ [CHR 0xE7, CHR 0xE3] @ ''o de problemas'', ''Resolu'' @ [CHR 0xE7, CHR 0xE3] @ ''o de Problemas''),
      (''problem solving'', ''Resolu'' @ [CHR 0xE7, CHR 0xE3] @ ''o de Problemas''),
      (''pensamento cr'' @ [CHR 0xED] @ ''tico'', ''Pensamento Cr'' @ [CHR 0xED] @ ''tico''),
      (''critical thinking'', ''Pensamento Cr'' @ [CHR 0xED] @ ''tico''),
      (''proativo'', ''Proatividade''),
      (''proatividade'', ''Proatividade''),
      (''proactive'', ''Proatividade''),
      (''adaptabilidade'', ''Adaptabilidade''),
      (''adaptability'', ''Adaptabilidade''),
      (''flexibilidade'', ''Flexibilidade''),
      (''flexibility'', ''Flexibilidade''),
      (''gerenciamento de tempo'', ''Gerenciamento de Tempo''),
      (''time management'', ''Gerenciamento de Tempo''),
      (''negocia'' @ [CHR 0xE7, CHR 0xE3] @ ''o'', ''Negocia'' @ [CHR 0xE7, CHR 0xE3] @ ''o''),
      (''negotiation'', ''Negocia'' @ [CHR 0xE7, CHR 0xE3] @ ''o'')]"

definition default_categories :: "(string \<times> string list) list" where
  "default_categories =
     [(''technical'',
        [''JavaScript'', ''TypeScript'', ''Python'', ''Java'', ''C#'', ''C++'',
         ''PHP'', ''Ruby'', ''Go'', ''Swift'', ''Kotlin'', ''Rust'', ''Scala'',
         ''Perl'', ''R (language)'', ''HTML'', ''CSS'', ''SQL'']),
      (''soft'',
        [''Comunica'' @ [CHR 0xE7, CHR 0xE3] @ ''o'', ''Trabalho em Equipe'',
         ''Lideran'' @ [CHR 0xE7] @ ''a'',
         ''Resolu'' @ [CHR 0xE7, CHR 0xE3] @ ''o de Problemas'',
         ''Pensamento Cr'' @ [CHR 0xED] @ ''tico'', ''Proatividade'',
         ''Adaptabilidade'', ''Flexibilidade'', ''Gerenciamento de Tempo'',
         ''Negocia'' @ [CHR 0xE7, CHR 0xE3] @ ''o'', ''Criatividade'',
         ''Empatia'', ''Persuas'' @ [CHR 0xE3] @ ''o'']),
      (''languages'',
        []),
      (''tools'',
        [''Visual Studio Code'', ''Visual Studio'', ''IntelliJ IDEA'',
         ''PyCharm'', ''WebStorm'', ''Eclipse'', ''Jira'', ''Confluence'',
         ''Trello'', ''Slack'', ''Adobe Photoshop'', ''Adobe Illustrator'',
         ''Adobe XD'', ''Figma'', ''Sketch'']),
      (''frameworks'',
        [''React'', ''Angular'', ''AngularJS'', ''Vue.js'', ''Node.js'',
         ''Express.js'', ''Django'', ''Flask'', ''Spring'', ''Spring Boot'',
         ''.NET'', ''Laravel'', ''Ruby on Rails'']),
      (''databases'',
        [''SQL'', ''NoSQL'', ''PostgreSQL'', ''MySQL'', ''MongoDB'', ''Oracle'',
         ''SQL Server'', ''SQLite'', ''Redis'', ''Elasticsearch'', ''DynamoDB'']),
      (''platforms'',
        [''AWS'', ''Azure'', ''Google Cloud'', ''Firebase'', ''Heroku'',
         ''Docker'', ''Kubernetes'', ''Jenkins'', ''Git'', ''GitHub'',
         ''GitLab'', ''Bitbucket'']),
      (''certifications'',
        []),
      (''methodologies'',
        [''Agile'', ''Scrum'', ''Kanban'', ''Lean'', ''Waterfall'', ''TDD'',
         ''BDD'', ''XP'', ''DevOps'', ''CI/CD''])]"

definition default_synonyms :: "(string \<times> string list) list" where
  "default_synonyms =
     [(''JavaScript'', [''JS'', ''ECMAScript'', ''Node.js'']),
      (''Python'', [''Py'', ''Django'', ''Flask'']),
      (''AWS'', [''Amazon Web Services'', ''EC2'', ''S3'', ''Lambda'']),
      (''Agile'', [''Scrum'', ''Kanban'', ''Sprint'']),
      (''SQL'', [''Database'', ''Queries'', ''PostgreSQL'', ''MySQL'']),
      (''DevOps'', [''CI/CD'', ''Continuous Integration'',
                     ''Continuous Deployment''])]"

definition load_default_mappings :: SkillMapper where
  \<comment> \<open>the mapper \<open>SkillMapper()\<close> builds when it is given no file\<close>
  "load_default_mappings =
     \<lparr>skill_map = default_skill_map, categories = default_categories,
      synonyms = default_synonyms\<rparr>"

definition soft_patterns :: "string list" where
  "soft_patterns =
     [''comunica'' @ [CHR 0xE7, CHR 0xE3] @ ''o'', ''comunica'', ''communication'',
      ''equipe'', ''team'', ''grupo'', ''group'', ''lideran'', ''lead'',
      ''gest'' @ [CHR 0xE3] @ ''o'', ''management'',
      ''resolu'' @ [CHR 0xE7, CHR 0xE3] @ ''o'', ''solv'', ''problem'', ''problema'',
      ''cr'' @ [CHR 0xED] @ ''tico'', ''critical'', ''think'', ''pens'', ''criativ'',
      ''creativ'', ''inovat'', ''inov'', ''adaptab'', ''flex'', ''empatia'', ''empathy'',
      ''organiza'', ''planeja'', ''plan'', ''aprend'', ''learn'', ''collabor'',
      ''colabor'', ''confli'', ''negoci'', ''negot'', ''persua'', ''relationship'',
      ''relacionamento'', ''motiva'' @ [CHR 0xE7, CHR 0xE3] @ ''o'', ''motivat'']"

fun find_category :: "(string \<times> string list) list \<Rightarrow> string \<Rightarrow> string option" where
  "find_category [] norm_skill = None"
| "find_category ((category, skills) # rest) norm_skill =
     (if norm_skill \<in> set skills then Some category else find_category rest norm_skill)"

definition categorize_skill :: "SkillMapper \<Rightarrow> string \<Rightarrow> string" where
  "categorize_skill self skill =
     (let norm_skill = normalize_skill self skill
      in case find_category (categories self) norm_skill of
           Some category \<Rightarrow> category
         | None \<Rightarrow>
             (let skill_lower = py_lower skill
              in if list_ex (\<lambda>pattern. sublist pattern skill_lower) soft_patterns
                 then ''soft'' else ''technical''))"

text \<open>
  The \<open>skills\<close> entry of a r\'esum\'e or job record is a list of skill strings or a
  dictionary from category to skill list; \<open>normalize_skills\<close> accepts both and returns a
  dictionary that always has the keys \<open>technical\<close> and \<open>soft\<close>.
\<close>

datatype skills_field = SkillsList "string list" | SkillsDict "(string \<times> string list) list"

definition dict_get :: "(string \<times> 'a list) list \<Rightarrow> string \<Rightarrow> 'a list" where
  \<comment> \<open>\<open>d.get(key, [])\<close>\<close>
  "dict_get d key = (case map_of d key of Some v \<Rightarrow> v | None \<Rightarrow> [])"

definition append_new :: "(string \<times> string list) list \<Rightarrow> string \<Rightarrow> string
                            \<Rightarrow> (string \<times> string list) list" where
  \<comment> \<open>\<open>if x not in d[key]: d[key].append(x)\<close>, for a key the dictionary has\<close>
  "append_new d key x =
     (if x \<notin> set (dict_get d key) then AList.update key (dict_get d key @ [x]) d else d)"

fun normalize_skill_list :: "SkillMapper \<Rightarrow> string list \<Rightarrow> (string \<times> string list) list
                               \<Rightarrow> (string \<times> string list) list" where
  "normalize_skill_list self [] normalized = normalized"
| "normalize_skill_list self (skill # rest) normalized =
     (if skill = [] then normalize_skill_list self rest normalized
      else
        let norm_skill = normalize_skill self skill;
            category = categorize_skill self norm_skill
        in normalize_skill_list self rest
             (if category \<in> fst ` set normalized
              then append_new normalized category norm_skill
              else append_new normalized ''technical'' norm_skill))"

fun normalize_category :: "SkillMapper \<Rightarrow> string \<Rightarrow> string list \<Rightarrow> (string \<times> string list) list
                             \<Rightarrow> (string \<times> string list) list" where
  "normalize_category self category [] normalized = normalized"
| "normalize_category self category (skill # rest) normalized =
     (let norm_skill = normalize_skill self skill
      in normalize_category self category rest
           (if norm_skill \<noteq> [] then append_new normalized category norm_skill
            else normalized))"

fun normalize_skill_dict :: "SkillMapper \<Rightarrow> (string \<times> string list) list
                               \<Rightarrow> (string \<times> string list) list
                               \<Rightarrow> (string \<times> string list) list" where
  "normalize_skill_dict self [] normalized = normalized"
| "normalize_skill_dict self ((category, skill_list) # rest) normalized =
     (if skill_list = [] then normalize_skill_dict self rest normalized
      else
        let normalized =
              (if category \<notin> fst ` set normalized
               then AList.update category [] normalized else normalized)
        in normalize_skill_dict self rest
             (normalize_category self category skill_list normalized))"

definition normalize_skills :: "SkillMapper \<Rightarrow> skills_field \<Rightarrow> (string \<times> string list) list" where
  "normalize_skills self skills =
     (let normalized = [(''technical'', []), (''soft'', [])]
      in case skills of
           SkillsList l \<Rightarrow> normalize_skill_list self l normalized
         | SkillsDict d \<Rightarrow> normalize_skill_dict self d normalized)"

section \<open>MatchService: the r\'esum\'e and job records\<close>

text \<open>
  The fields of the two dictionaries that \<open>calculate_match\<close> reads. A string field holds
  what \<open>d.get(key, '')\<close> returns. A date of an experience entry is absent, \<open>None\<close> or a
  string: \<open>exp.get('start_date')\<close> does not tell the first two apart, while
  \<open>exp.get('end_date', now)\<close> replaces only an absent date by the current time.
\<close>

datatype date_field = Absent | PyNone | PyStr string

record experience_entry =
  exp_title :: string
  exp_start_date :: date_field
  exp_end_date :: date_field

record education_entry =
  edu_degree :: string
  edu_field_of_study :: string

record resume_data =
  r_title :: string
  r_skills :: skills_field
  r_experience :: "experience_entry list"
  r_education :: "education_entry list"

record job_data =
  j_title :: string
  j_skills :: skills_field
  j_experience_level :: string
  j_requirements :: "string list"

datatype py_error = AttributeError string | ValueError string | Exception string

fun str :: "py_error \<Rightarrow> string" where
  "str (AttributeError msg) = msg"
| "str (ValueError msg) = msg"
| "str (Exception msg) = msg"

section \<open>MatchService: experience\<close>

definition experience_levels :: "(string \<times> int) list" where
  "experience_levels =
     [(''est'' @ [CHR 0xE1] @ ''gio'', 0),
      (''j'' @ [CHR 0xFA] @ ''nior'', 1),
      (''junior'', 1),
      (''pleno'', 2),
      (''s'' @ [CHR 0xEA] @ ''nior'', 3),
      (''senior'', 3),
      (''especialista'', 3),
      (''gerente'', 4),
      (''diretor'', 5),
      (''executivo'', 6)]"

definition replace_Z :: "string \<Rightarrow> string" where
  \<comment> \<open>\<open>s.replace('Z', '+00:00')\<close>\<close>
  "replace_Z s = concat (map (\<lambda>c. if c = CHR ''Z'' then ''+00:00'' else [c]) s)"

text \<open>
  \<open>datetime.fromisoformat\<close> is the library's parser. It is a parameter here,
  \<open>fromisoformat\<close>, that gives the year and the month of the date a string denotes and
  \<open>None\<close> where the library raises \<open>ValueError\<close>; \<open>utcnow\<close> is the string
  \<open>datetime.utcnow().isoformat()\<close>. The loop returns the total and the relevant months,
  or the exception that leaves it: \<open>except (ValueError, TypeError)\<close> does not catch the
  \<open>AttributeError\<close> of \<open>None.replace\<close>.
\<close>

fun experience_loop :: "(string \<Rightarrow> (int \<times> int) option) \<Rightarrow> string \<Rightarrow> string
                          \<Rightarrow> experience_entry list \<Rightarrow> int \<times> int \<Rightarrow> py_error + int \<times> int" where
  "experience_loop fromisoformat utcnow title [] (total_months, relevant_experience) =
     Inr (total_months, relevant_experience)"
| "experience_loop fromisoformat utcnow title (entry # rest) (total_months, relevant_experience) =
     (case exp_start_date entry of
        Absent \<Rightarrow>
          experience_loop fromisoformat utcnow title rest (total_months, relevant_experience)
      | PyNone \<Rightarrow>
          experience_loop fromisoformat utcnow title rest (total_months, relevant_experience)
      | PyStr start_date \<Rightarrow>
          if start_date = []
          then experience_loop fromisoformat utcnow title rest (total_months, relevant_experience)
          else
            (case fromisoformat (replace_Z start_date) of
               None \<Rightarrow>
                 experience_loop fromisoformat utcnow title rest
                   (total_months + 12, relevant_experience)
             | Some (start_year, start_month) \<Rightarrow>
                 (case exp_end_date entry of
                    PyNone \<Rightarrow>
                      Inl (AttributeError
                        ([CHR 0x27] @ ''NoneType'' @ [CHR 0x27] @ '' object has no attribute ''
                           @ [CHR 0x27] @ ''replace'' @ [CHR 0x27]))
                  | end_field \<Rightarrow>
                      (let end_date = (case end_field of PyStr s \<Rightarrow> s | _ \<Rightarrow> utcnow)
                       in case fromisoformat (replace_Z end_date) of
                            None \<Rightarrow>
                              experience_loop fromisoformat utcnow title rest
                                (total_months + 12, relevant_experience)
                          | Some (end_year, end_month) \<Rightarrow>
                              (let months = (end_year - start_year) * 12
                                              + (end_month - start_month);
                                   total_months = total_months + months
                               in experience_loop fromisoformat utcnow title rest
                                    (total_months,
                                     if sublist (py_lower (exp_title entry)) (py_lower title)
                                        \<or> sublist (py_lower title) (py_lower (exp_title entry))
                                     then relevant_experience + months
                                     else relevant_experience))))))"

definition candidate_level_of :: "int \<Rightarrow> int" where
  "candidate_level_of total_months =
     (if total_months < 6 then 0
      else if total_months < 24 then 1
      else if total_months < 60 then 2
      else if total_months < 96 then 3
      else if total_months < 120 then 4
      else 5)"

definition calculate_experience_match ::
    "(string \<Rightarrow> (int \<times> int) option) \<Rightarrow> string \<Rightarrow> experience_entry list \<Rightarrow> job_data
       \<Rightarrow> py_error + real" where
  "calculate_experience_match fromisoformat utcnow resume_experience job =
     (if resume_experience = [] then Inr 0
      else
        let job_experience_level = py_lower (j_experience_level job);
            job_level_value =
              (case List.find (\<lambda>(level, value). sublist level job_experience_level)
                      experience_levels of
                 Some (level, value) \<Rightarrow> value
               | None \<Rightarrow> 0)
        in case experience_loop fromisoformat utcnow (j_title job) resume_experience (0, 0) of
             Inl e \<Rightarrow> Inl e
           | Inr (total_months, relevant_experience) \<Rightarrow>
               (let candidate_level = candidate_level_of total_months;
                    score =
                      (if candidate_level \<ge> job_level_value then 1
                       else
                         let level_diff = job_level_value - candidate_level
                         in max 0 (1 - real_of_int level_diff * (25 / 100)))
                in Inr (if relevant_experience > 0
                        then
                          let relevance_bonus =
                                min (2 / 10) (real_of_int relevant_experience / 36 * (2 / 10))
                          in min 1 (score + relevance_bonus)
                        else score)))"

section \<open>MatchService: education\<close>

definition education_terms :: "string list" where
  "education_terms =
     [''forma'' @ [CHR 0xE7, CHR 0xE3] @ ''o'', ''gradua'' @ [CHR 0xE7, CHR 0xE3] @ ''o'',
      ''ensino'', ''degree'', ''education'']"

definition education_fields :: "string list" where
  "education_fields =
     [''computa'' @ [CHR 0xE7, CHR 0xE3] @ ''o'', ''sistemas'', ''ti'',
      ''inform'' @ [CHR 0xE1] @ ''tica'', ''software'', ''engenharia'',
      ''administra'' @ [CHR 0xE7, CHR 0xE3] @ ''o'', ''neg'' @ [CHR 0xF3] @ ''cios'',
      ''marketing'', ''design'', ''comunica'' @ [CHR 0xE7, CHR 0xE3] @ ''o'', ''direito'',
      ''economia'', ''contabilidade'', ''finan'' @ [CHR 0xE7] @ ''as'',
      ''recursos humanos'', ''rh'']"

definition degree_levels :: "(string \<times> int) list" where
  "degree_levels =
     [(''ensino m'' @ [CHR 0xE9] @ ''dio'', 1),
      (''t'' @ [CHR 0xE9] @ ''cnico'', 2),
      (''superior'', 3),
      (''gradua'' @ [CHR 0xE7, CHR 0xE3] @ ''o'', 3),
      (''bacharelado'', 3),
      (''licenciatura'', 3),
      (''tecn'' @ [CHR 0xF3] @ ''logo'', 3),
      (''p'' @ [CHR 0xF3] @ ''s-gradua'' @ [CHR 0xE7, CHR 0xE3] @ ''o'', 4),
      (''especializa'' @ [CHR 0xE7, CHR 0xE3] @ ''o'', 4),
      (''mba'', 4),
      (''mestrado'', 5),
      (''doutorado'', 6),
      (''phd'', 6)]"

definition mentions_education :: "string \<Rightarrow> bool" where
  \<comment> \<open>\<open>any(term in req_lower for term in [...])\<close>\<close>
  "mentions_education req_lower = list_ex (\<lambda>term. sublist term req_lower) education_terms"

definition required_degree_of :: "string \<Rightarrow> string option" where
  "required_degree_of req_lower =
     (if sublist ''superior'' req_lower
         \<or> sublist (''gradua'' @ [CHR 0xE7, CHR 0xE3] @ ''o'') req_lower
         \<or> sublist ''bachelor'' req_lower
      then Some ''superior''
      else if sublist (''p'' @ [CHR 0xF3] @ ''s'') req_lower
              \<or> sublist (''especializa'' @ [CHR 0xE7, CHR 0xE3] @ ''o'') req_lower
              \<or> sublist ''post-grad'' req_lower
      then Some ''pos''
      else if sublist ''mestrado'' req_lower \<or> sublist ''master'' req_lower
      then Some ''mestrado''
      else if sublist ''doutorado'' req_lower \<or> sublist ''phd'' req_lower
      then Some ''doutorado''
      else if sublist (''t'' @ [CHR 0xE9] @ ''cnico'') req_lower \<or> sublist ''technical'' req_lower
      then Some ''tecnico''
      else None)"

fun requirement_loop :: "string list \<Rightarrow> bool \<times> string option \<times> string option" where
  \<comment> \<open>\<open>(education_required, required_degree, required_field)\<close>, set by the first
      requirement that mentions education\<close>
  "requirement_loop [] = (False, None, None)"
| "requirement_loop (req # rest) =
     (let req_lower = py_lower req
      in if mentions_education req_lower
         then (True, required_degree_of req_lower,
               List.find (\<lambda>field. sublist field req_lower) education_fields)
         else requirement_loop rest)"

fun education_loop :: "string option \<Rightarrow> education_entry list \<Rightarrow> int \<times> bool \<Rightarrow> int \<times> bool" where
  "education_loop required_field [] (candidate_level, field_match) =
     (candidate_level, field_match)"
| "education_loop required_field (edu # rest) (candidate_level, field_match) =
     (let degree = py_lower (edu_degree edu);
          field = py_lower (edu_field_of_study edu);
          level =
            (case List.find (\<lambda>(level_name, level_value). sublist level_name degree)
                    degree_levels of
               Some (level_name, level_value) \<Rightarrow> level_value
             | None \<Rightarrow> 0)
      in education_loop required_field rest
           (max candidate_level level,
            (case required_field of
               Some rf \<Rightarrow>
                 if rf \<noteq> [] \<and> (sublist rf field \<or> sublist field rf)
                 then True else field_match
             | None \<Rightarrow> field_match)))"

definition calculate_education_match :: "education_entry list \<Rightarrow> job_data \<Rightarrow> real" where
  "calculate_education_match resume_education job =
     (if resume_education = [] then 0
      else
        case requirement_loop (j_requirements job) of
          (education_required, required_degree, required_field) \<Rightarrow>
            if \<not> education_required then 1
            else
              let required_level =
                    (case required_degree of
                       None \<Rightarrow> 3
                     | Some rd \<Rightarrow>
                         if rd = [] then 3
                         else
                           (case List.find (\<lambda>(level, value). sublist rd level) degree_levels of
                              Some (level, value) \<Rightarrow> value
                            | None \<Rightarrow> 3))
              in case education_loop required_field resume_education (0, False) of
                   (candidate_level, field_match) \<Rightarrow>
                     let level_score =
                           (if candidate_level \<ge> required_level then 1
                            else
                              let level_diff = required_level - candidate_level
                              in max 0 (1 - real_of_int level_diff * (3 / 10)))
                     in case required_field of
                          None \<Rightarrow> level_score
                        | Some rf \<Rightarrow>
                            if rf = [] then level_score
                            else if field_match then min 1 (level_score + 2 / 10)
                            else max 0 (level_score - 2 / 10))"

section \<open>MatchService: job title\<close>

fun split_ws :: "string \<Rightarrow> string \<Rightarrow> string list" where
  "split_ws word [] = (if word = [] then [] else [word])"
| "split_ws word (c # cs) =
     (if py_isspace c
      then (if word = [] then split_ws [] cs else word # split_ws [] cs)
      else split_ws (word @ [c]) cs)"

definition py_split :: "string \<Rightarrow> string list" where
  \<comment> \<open>\<open>s.split()\<close>: the maximal runs of characters that are not white space\<close>
  "py_split s = split_ws [] s"

definition stop_words :: "string set" where
  "stop_words = {''de'', ''da'', ''do'', ''e'', ''para'', ''no'', ''na'', ''em'', ''com'',
                 ''o'', ''a'', ''os'', ''as''}"

definition calculate_job_title_match :: "string \<Rightarrow> string \<Rightarrow> real" where
  "calculate_job_title_match resume_title job_title =
     (if resume_title = [] \<or> job_title = [] then 1 / 2
      else
        let resume_title_norm = py_lower resume_title;
            job_title_norm = py_lower job_title;
            resume_words = set (py_split resume_title_norm) - stop_words;
            job_words = set (py_split job_title_norm) - stop_words
        in if resume_words = {} \<or> job_words = {} then 1 / 2
           else
             let intersection = resume_words \<inter> job_words;
                 all_words = resume_words \<union> job_words;
                 jaccard = real (card intersection) / real (card all_words);
                 direct_match =
                   (\<exists>word \<in> resume_words. length word > 3 \<and> sublist word job_title_norm)
             in if direct_match then min 1 (jaccard + 3 / 10) else jaccard)"

section \<open>MatchService: recommendations\<close>

fun join :: "string \<Rightarrow> string list \<Rightarrow> string" where
  "join sep [] = []"
| "join sep [x] = x"
| "join sep (x # y # ys) = x @ sep @ join sep (y # ys)"

definition generate_recommendations :: "string list \<Rightarrow> job_data \<Rightarrow> string list" where
  "generate_recommendations missing_skills job =
     (if missing_skills \<noteq> []
      then [''Adicione ao seu curr'' @ [CHR 0xED] @ ''culo as seguintes habilidades (caso voc''
              @ [CHR 0xEA] @ '' as possua): '' @ join '', '' (take 5 missing_skills)]
           @ (if length missing_skills > 5
              then [''Considere desenvolver conhecimento nas demais habilidades: ''
                      @ join '', '' (drop 5 missing_skills)]
              else [])
      else [])
     @ (if j_title job \<noteq> []
        then [''Adapte seu objetivo profissional para alinhar-se ao cargo de '' @ [CHR 0x27]
                @ j_title job @ [CHR 0x27]]
        else [])
     @ (if j_experience_level job \<noteq> []
           \<and> py_lower (j_experience_level job)
               \<in> set [''pleno'', ''s'' @ [CHR 0xEA] @ ''nior'', ''senior'', ''gerente'']
        then [''Destaque suas realiza'' @ [CHR 0xE7, CHR 0xF5]
                @ ''es e resultados quantific'' @ [CHR 0xE1] @ ''veis nas experi''
                @ [CHR 0xEA] @ ''ncias anteriores'']
        else [])
     @ [''Personalize sua carta de apresenta'' @ [CHR 0xE7, CHR 0xE3]
          @ ''o mencionando especificamente como suas habilidades se alinham com os ''
          @ ''requisitos desta vaga'']"

section \<open>ClaudeService.calculate_match\<close>

text \<open>
  The delegate's answer, once \<open>extract_json\<close> (or the fallback parser) has turned it
  into a dictionary: \<open>score_overall\<close> is absent, a value \<open>float\<close> accepts, or a value
  \<open>float\<close> rejects. An exception of the request or of the parser stands in its place.
  \<open>created_at\<close> is a time stamp and is left out of the records.
\<close>

datatype score_value = ScoreAbsent | ScoreNumber real | ScoreInvalid

record match_reply =
  reply_score_overall :: score_value
  reply_score_details :: "(string \<times> real) list"
  reply_matching_skills :: "string list"
  reply_missing_skills :: "string list"
  reply_recommendations :: "string list"

record match_result =
  score_overall :: real
  score_details :: "(string \<times> real) list"
  matching_skills :: "string list"
  missing_skills :: "string list"
  recommendations :: "string list"
  error :: "string option"

definition with_score :: "match_reply \<Rightarrow> real \<Rightarrow> match_result" where
  \<comment> \<open>\<open>result['score_overall'] = score\<close>; every other entry stays as the delegate gave it\<close>
  "with_score result score =
     \<lparr>score_overall = score,
      score_details = reply_score_details result,
      matching_skills = reply_matching_skills result,
      missing_skills = reply_missing_skills result,
      recommendations = reply_recommendations result,
      error = None\<rparr>"

definition claude_calculate_match :: "py_error + match_reply \<Rightarrow> py_error + match_result" where
  "claude_calculate_match response =
     (case response of
        Inl e \<Rightarrow> Inl e
      | Inr result \<Rightarrow>
          (case reply_score_overall result of
             ScoreAbsent \<Rightarrow> Inr (with_score result 0)
           | ScoreInvalid \<Rightarrow> Inl (ValueError ''could not convert string to float'')
           | ScoreNumber score \<Rightarrow>
               Inr (with_score result
                      (if score > 1 \<and> score \<le> 100 then score
                       else if score \<ge> 0 \<and> score \<le> 1 then score * 100
                       else max 0 (min 100 score)))))"

section \<open>MatchService.calculate_match\<close>

definition weights :: "string \<Rightarrow> real" where
  "weights key =
     (if key = ''skills_technical'' then 35 / 100
      else if key = ''skills_soft'' then 15 / 100
      else if key = ''experience'' then 25 / 100
      else if key = ''education'' then 15 / 100
      else if key = ''job_title_match'' then 10 / 100
      else 0)"

definition py_round2 :: "real \<Rightarrow> real" where
  \<comment> \<open>\<open>round(x, 2)\<close>: to the nearest hundredth, a tie to the even one\<close>
  "py_round2 x =
     (let y = x * 100; f = \<lfloor>y\<rfloor>; d = y - of_int f
      in (if d < 1 / 2 then of_int f
          else if d > 1 / 2 then of_int f + 1
          else if even f then of_int f else of_int f + 1) / 100)"

definition calculate_match_internal ::
    "SkillMapper \<Rightarrow> (string \<Rightarrow> (int \<times> int) option) \<Rightarrow> string \<Rightarrow> resume_data \<Rightarrow> job_data
       \<Rightarrow> py_error + match_result" where
  \<comment> \<open>the body of the second \<open>try\<close> of \<open>calculate_match\<close>\<close>
  "calculate_match_internal skill_mapper fromisoformat utcnow resume job =
     (let mapped_resume_skills = normalize_skills skill_mapper (r_skills resume);
          mapped_job_skills = normalize_skills skill_mapper (j_skills job);
          technical_skills_score =
            calculate_skills_match (dict_get mapped_resume_skills ''technical'')
              (dict_get mapped_job_skills ''technical'');
          soft_skills_score =
            calculate_skills_match (dict_get mapped_resume_skills ''soft'')
              (dict_get mapped_job_skills ''soft'')
      in case calculate_experience_match fromisoformat utcnow (r_experience resume) job of
           Inl e \<Rightarrow> Inl e
         | Inr experience_score \<Rightarrow>
             (let education_score = calculate_education_match (r_education resume) job;
                  job_title_score = calculate_job_title_match (r_title resume) (j_title job);
                  overall_score =
                    technical_skills_score * weights ''skills_technical''
                    + soft_skills_score * weights ''skills_soft''
                    + experience_score * weights ''experience''
                    + education_score * weights ''education''
                    + job_title_score * weights ''job_title_match'';
                  overall_score = min 100 (max 0 (overall_score * 100));
                  gaps =
                    identify_skill_gaps
                      (dict_get mapped_resume_skills ''technical''
                         @ dict_get mapped_resume_skills ''soft'')
                      (dict_get mapped_job_skills ''technical''
                         @ dict_get mapped_job_skills ''soft'')
              in Inr \<lparr>score_overall = py_round2 overall_score,
                      score_details =
                        [(''technical_skills'', py_round2 (technical_skills_score * 100)),
                         (''soft_skills'', py_round2 (soft_skills_score * 100)),
                         (''experience'', py_round2 (experience_score * 100)),
                         (''education'', py_round2 (education_score * 100)),
                         (''job_title'', py_round2 (job_title_score * 100))],
                      matching_skills = fst gaps,
                      missing_skills = snd gaps,
                      recommendations = generate_recommendations (snd gaps) job,
                      error = None\<rparr>))"

definition error_result :: "py_error \<Rightarrow> match_result" where
  \<comment> \<open>\<open>{'score_overall': 0, 'error': str(e)}\<close>: no other entry is present\<close>
  "error_result e =
     \<lparr>score_overall = 0, score_details = [], matching_skills = [], missing_skills = [],
      recommendations = [], error = Some (str e)\<rparr>"

definition calculate_match ::
    "SkillMapper \<Rightarrow> (string \<Rightarrow> (int \<times> int) option) \<Rightarrow> string \<Rightarrow> py_error + match_reply
       \<Rightarrow> resume_data \<Rightarrow> job_data \<Rightarrow> bool \<Rightarrow> py_error + match_result" where
  \<comment> \<open>\<open>claude_response\<close> is what the delegate answers to this call; the service object
      itself is always set (\<open>claude_service or ClaudeService()\<close>)\<close>
  "calculate_match skill_mapper fromisoformat utcnow claude_response resume job use_claude =
     (let internal =
            (case calculate_match_internal skill_mapper fromisoformat utcnow resume job of
               Inr match_result \<Rightarrow> Inr match_result
             | Inl e \<Rightarrow> Inr (error_result e))
      in if use_claude
         then (case claude_calculate_match claude_response of
                 Inr match_result \<Rightarrow> Inr match_result
               | Inl e \<Rightarrow> internal)
         else internal)"

section \<open>JobAnalyzer\<close>

text \<open>
  A job posting is a dictionary of arbitrary values. The regular-expression extractors
  \<open>_extract_job_data\<close> and \<open>_extract_skills\<close> and the delegate's \<open>parse_job_post\<close> are
  the analyzer's collaborators: each returns a value or raises.
\<close>

datatype pyval = VNone | VStr string | VList "pyval list" | VDict "(string \<times> pyval) list"

type_synonym posting = "(string \<times> pyval) list"

fun truthy :: "pyval \<Rightarrow> bool" where
  "truthy VNone = False"
| "truthy (VStr s) = (s \<noteq> [])"
| "truthy (VList l) = (l \<noteq> [])"
| "truthy (VDict d) = (d \<noteq> [])"

record JobAnalyzer =
  claude_service :: "(posting \<Rightarrow> py_error + posting) option"
  extract_job_data :: "pyval \<Rightarrow> py_error + posting"
  extract_skills :: "pyval \<Rightarrow> py_error + pyval"

definition set_error :: "posting \<Rightarrow> py_error \<Rightarrow> posting" where
  \<comment> \<open>\<open>job_data['error'] = str(e)\<close>\<close>
  "set_error job e = AList.update ''error'' (VStr (str e)) job"

definition has_value :: "posting \<Rightarrow> string \<Rightarrow> bool" where
  \<comment> \<open>\<open>key in d and d[key]\<close>\<close>
  "has_value d key = (case map_of d key of Some v \<Rightarrow> truthy v | None \<Rightarrow> False)"

definition analyze_internal :: "JobAnalyzer \<Rightarrow> string \<Rightarrow> posting \<Rightarrow> pyval \<Rightarrow> py_error + posting" where
  \<comment> \<open>the body of the second \<open>try\<close> of \<open>analyze\<close>\<close>
  "analyze_internal self utcnow job description =
     (case extract_job_data self description of
        Inl e \<Rightarrow> Inl e
      | Inr extracted_data \<Rightarrow>
          (let analyzed_job =
                 fold (\<lambda>(key, value) analyzed_job.
                         if \<not> has_value analyzed_job key
                         then AList.update key value analyzed_job else analyzed_job)
                   extracted_data job
           in case (if \<not> has_value analyzed_job ''skills''
                    then (case extract_skills self description of
                            Inl e \<Rightarrow> Inl e
                          | Inr skills \<Rightarrow> Inr (AList.update ''skills'' skills analyzed_job))
                    else Inr analyzed_job) of
                Inl e \<Rightarrow> Inl e
              | Inr analyzed_job \<Rightarrow>
                  Inr (AList.update ''analyzed_at'' (VStr utcnow) analyzed_job)))"

definition analyze :: "JobAnalyzer \<Rightarrow> string \<Rightarrow> posting \<Rightarrow> bool \<Rightarrow> py_error + posting" where
  "analyze self utcnow job use_claude =
     (let description = (case map_of job ''description'' of Some v \<Rightarrow> v | None \<Rightarrow> VStr [])
      in if \<not> truthy description
         then Inr [(''error'', VStr (''Descri'' @ [CHR 0xE7, CHR 0xE3] @ ''o da vaga est''
                                       @ [CHR 0xE1] @ '' vazia'')),
                   (''original_data'', VDict job)]
         else
           let internal =
                 (case analyze_internal self utcnow job description of
                    Inr analyzed_job \<Rightarrow> Inr analyzed_job
                  | Inl e \<Rightarrow> Inr (set_error job e))
           in case (if use_claude then claude_service self else None) of
                None \<Rightarrow> internal
              | Some parse_job_post \<Rightarrow>
                  (case parse_job_post job of
                     Inl e \<Rightarrow> internal
                   | Inr analyzed_job \<Rightarrow>
                       Inr (fold (\<lambda>(key, value) analyzed_job.
                                    if key \<notin> fst ` set analyzed_job
                                    then AList.update key value analyzed_job
                                    else analyzed_job)
                              job analyzed_job)))"

text \<open>
  \<open>analyze_job_batch\<close> calls \<open>self.analyze\<close>, which a subclass may replace; the loop is
  therefore written over any analysis step, and \<open>analyze_job_batch\<close> is the loop over
  the analyzer's own \<open>analyze\<close>.
\<close>

fun batch_loop :: "(posting \<Rightarrow> py_error + posting) \<Rightarrow> posting list \<Rightarrow> posting list
                     \<Rightarrow> posting list" where
  "batch_loop step [] analyzed_jobs = analyzed_jobs"
| "batch_loop step (job_data # rest) analyzed_jobs =
     batch_loop step rest
       (case step job_data of
          Inr analyzed_job \<Rightarrow> analyzed_jobs @ [analyzed_job]
        | Inl e \<Rightarrow> analyzed_jobs @ [set_error job_data e])"

definition analyze_job_batch :: "JobAnalyzer \<Rightarrow> string \<Rightarrow> posting list \<Rightarrow> bool \<Rightarrow> posting list" where
  "analyze_job_batch self utcnow job_list use_claude =
     batch_loop (\<lambda>job_data. analyze self utcnow job_data use_claude) job_list []"

section \<open>Auxiliary notions and example data\<close>

text \<open>
  The notions the statements below are written with, and the concrete records, tables
  and collaborators on which the theorems are instantiated.
\<close>

definition example_fromisoformat :: "string \<Rightarrow> (int \<times> int) option" where
  \<comment> \<open>the library parser on the date strings of the examples: year and month\<close>
  "example_fromisoformat s =
     map_of [(''2020-01-15'', (2020, 1)), (''2022-03-01'', (2022, 3)),
             (''2024-06-30T12:00:00'', (2024, 6))] s"

definition example_resume :: resume_data where
  "example_resume =
     \<lparr>r_title = ''Python Developer'',
      r_skills = SkillsList [''python'', ''sql''],
      r_experience =
        [\<lparr>exp_title = ''Developer'', exp_start_date = PyStr ''2020-01-15'',
          exp_end_date = PyStr ''2022-03-01''\<rparr>],
      r_education = [\<lparr>edu_degree = ''Bacharelado'', edu_field_of_study = ''Software''\<rparr>]\<rparr>"

definition example_job :: job_data where
  "example_job =
     \<lparr>j_title = ''Developer'', j_skills = SkillsList [],
      j_experience_level = ''Pleno'', j_requirements = [''5 years of Python'']\<rparr>"

definition example_result :: match_result where
  "example_result =
     \<lparr>score_overall = 98,
      score_details = [(''technical_skills'', 100), (''soft_skills'', 100),
                       (''experience'', 100), (''education'', 100), (''job_title'', 80)],
      matching_skills = [], missing_skills = [],
      recommendations = generate_recommendations [] example_job,
      error = None\<rparr>"

definition entry_months :: "(string \<Rightarrow> (int \<times> int) option) \<Rightarrow> string \<Rightarrow> experience_entry \<Rightarrow> int" where
  \<comment> \<open>the months one experience entry adds to the total, entry by entry: nothing without
      a start date, the difference of the two dates when both parse, 12 otherwise\<close>
  "entry_months fromisoformat utcnow entry =
     (case exp_start_date entry of
        PyStr start_date \<Rightarrow>
          if start_date = [] then 0
          else
            (case fromisoformat (replace_Z start_date) of
               None \<Rightarrow> 12
             | Some (start_year, start_month) \<Rightarrow>
                 (case fromisoformat
                         (replace_Z (case exp_end_date entry of PyStr s \<Rightarrow> s | _ \<Rightarrow> utcnow)) of
                    None \<Rightarrow> 12
                  | Some (end_year, end_month) \<Rightarrow>
                      (end_year - start_year) * 12 + (end_month - start_month)))
      | _ \<Rightarrow> 0)"

definition example_experience :: "experience_entry list" where
  "example_experience =
     [\<lparr>exp_title = ''Developer'', exp_start_date = PyStr ''2020-01-15'',
       exp_end_date = PyStr ''2022-03-01''\<rparr>,
      \<lparr>exp_title = ''Analyst'', exp_start_date = PyStr ''Jan 2019'',
       exp_end_date = PyStr ''Presente''\<rparr>,
      \<lparr>exp_title = ''Intern'', exp_start_date = PyStr ''2020-01-15'',
       exp_end_date = PyStr ''Presente''\<rparr>,
      \<lparr>exp_title = ''Trainee'', exp_start_date = PyStr [],
       exp_end_date = PyStr ''Presente''\<rparr>,
      \<lparr>exp_title = ''Volunteer'', exp_start_date = Absent,
       exp_end_date = PyStr ''2022-03-01''\<rparr>]"

definition example_analyzer :: JobAnalyzer where
  "example_analyzer =
     \<lparr>claude_service = None,
      extract_job_data =
        (\<lambda>description. if description = VStr ''boom'' then Inl (Exception ''bad pattern'')
                        else Inr [(''location'', VStr ''Remote'')]),
      extract_skills = (\<lambda>description. Inr (VList [VStr ''python'']))\<rparr>"

definition example_postings :: "posting list" where
  "example_postings =
     [[(''title'', VStr ''A''), (''description'', VStr ''boom'')],
      [(''title'', VStr ''B''), (''description'', VStr ''Python developer'')],
      [(''title'', VStr ''C'')]]"

definition add_skill_mappings :: "SkillMapper \<Rightarrow> (string \<times> string \<times> string option) list \<Rightarrow> SkillMapper" where
  \<comment> \<open>a sequence of \<open>add_skill_mapping\<close> calls, each with its variant, canonical name and
      optional category\<close>
  "add_skill_mappings self calls =
     fold (\<lambda>(variant, normalized, category) self.
             add_skill_mapping self variant normalized category) calls self"

definition example_reply :: match_reply where
  "example_reply =
     \<lparr>reply_score_overall = ScoreNumber 80,
      reply_score_details = [(''technical_skills'', 150)],
      reply_matching_skills = [''Python''],
      reply_missing_skills = [],
      reply_recommendations = []\<rparr>"

definition level_gap_score :: "int \<Rightarrow> int \<Rightarrow> real \<Rightarrow> real" where
  \<comment> \<open>the score of a candidate level against a required level with penalty \<open>k\<close> a level\<close>
  "level_gap_score c q k = (if c \<ge> q then 1 else max 0 (1 - real_of_int (q - c) * k))"

definition failing_resume :: resume_data where
  "failing_resume =
     example_resume\<lparr>r_experience :=
       [\<lparr>exp_title = ''Developer'', exp_start_date = PyStr ''2020-01-15'',
         exp_end_date = PyNone\<rparr>]\<rparr>"

definition scenario_A_job :: job_data where
  "scenario_A_job = example_job\<lparr>j_skills := SkillsList [''python'', ''django'', ''sql'']\<rparr>"

definition scenario_A_result :: match_result where
  "scenario_A_result =
     \<lparr>score_overall = 8633 / 100,
      score_details = [(''technical_skills'', 6667 / 100), (''soft_skills'', 100),
                       (''experience'', 100), (''education'', 100), (''job_title'', 80)],
      matching_skills = [''Python'', ''SQL''], missing_skills = [''Django''],
      recommendations = generate_recommendations [''Django''] scenario_A_job,
      error = None\<rparr>"

section \<open>Verified properties\<close>

subsection \<open>Skill matching\<close>

lemma skill_in_resume_iff:
  "skill_in_resume resume_skills_norm skill \<longleftrightarrow>
     (\<exists>r\<in>set resume_skills_norm. sublist r skill \<or> sublist skill r)"
  by (auto simp: skill_in_resume_def list_ex_iff)

lemma length_filter_mono:
  "(\<And>x. x \<in> set xs \<Longrightarrow> P x \<Longrightarrow> Q x) \<Longrightarrow> length (filter P xs) \<le> length (filter Q xs)"
  by (induction xs) auto

lemma skills_match_unfold:
  assumes "J \<noteq> []" "R \<noteq> []"
  shows "calculate_skills_match R J =
    surplus_score (real (length (filter (skill_in_resume (map py_lower R)) (map py_lower J))))
         (real (length J)) (real (length R))"
  using assms by (simp add: calculate_skills_match_def Let_def surplus_score_def)

lemma surplus_score_bounds:
  fixes m n r :: real
  assumes "0 < n" "0 \<le> m" "m \<le> n"
  shows "0 \<le> surplus_score m n r \<and> surplus_score m n r \<le> 1"
proof -
  have q0: "0 \<le> m / n" and q1: "m / n \<le> 1" using assms by simp_all
  show ?thesis
  proof (cases "r > n")
    case True
    define b where "b = min (15 / 100) ((r - n) / n * (15 / 100))"
    have "0 \<le> (r - n) / n * (15 / 100)" using True assms by simp
    then have "0 \<le> b" unfolding b_def by simp
    moreover have "surplus_score m n r = min 1 (m / n + b)"
      using True by (simp only: surplus_score_def b_def if_True)
    ultimately show ?thesis using q0 by simp
  next
    case False
    then have "surplus_score m n r = m / n" by (simp only: surplus_score_def if_False)
    then show ?thesis using q0 q1 by simp
  qed
qed

lemma surplus_score_mono:
  fixes m m' n r :: real
  assumes "0 < n" "0 \<le> m" "m \<le> m'" "m' \<le> n"
  shows "surplus_score m n r \<le> surplus_score m' n (r + 1)"
proof -
  have q: "m / n \<le> m' / n" using assms by (simp add: divide_right_mono)
  have q1: "m / n \<le> 1" using assms by simp
  define b where "b = min (15 / 100) ((r - n) / n * (15 / 100))"
  define b' where "b' = min (15 / 100) ((r + 1 - n) / n * (15 / 100))"
  have "(r - n) / n \<le> (r + 1 - n) / n" using assms by (simp add: divide_right_mono)
  then have "(r - n) / n * (15 / 100) \<le> (r + 1 - n) / n * (15 / 100)"
    by (rule mult_right_mono) simp
  then have bb: "b \<le> b'" unfolding b_def b'_def by (rule min.mono[OF order_refl])
  show ?thesis
  proof (cases "r > n")
    case True
    then have T': "r + 1 > n" by simp
    have l: "surplus_score m n r = min 1 (m / n + b)"
      using True by (simp only: surplus_score_def b_def if_True)
    have r: "surplus_score m' n (r + 1) = min 1 (m' / n + b')"
      using T' by (simp only: surplus_score_def b'_def if_True)
    show ?thesis unfolding l r using q bb by (intro min.mono) simp_all
  next
    case False
    have l: "surplus_score m n r = m / n"
      using False by (simp only: surplus_score_def if_False)
    show ?thesis
    proof (cases "r + 1 > n")
      case True
      have "0 \<le> (r + 1 - n) / n * (15 / 100)" using True assms by simp
      then have b0: "0 \<le> b'" unfolding b'_def by simp
      have r: "surplus_score m' n (r + 1) = min 1 (m' / n + b')"
        using True by (simp only: surplus_score_def b'_def if_True)
      show ?thesis unfolding l r using q q1 b0 by simp
    next
      case F2: False
      have r: "surplus_score m' n (r + 1) = m' / n"
        using F2 by (simp only: surplus_score_def if_False)
      show ?thesis unfolding l r by (rule q)
    qed
  qed
qed

lemma skills_match_bounds:
  "0 \<le> calculate_skills_match R J \<and> calculate_skills_match R J \<le> 1"
proof (cases "J = [] \<or> R = []")
  case True
  then show ?thesis by (auto simp: calculate_skills_match_def)
next
  case False
  have "length (filter (skill_in_resume (map py_lower R)) (map py_lower J)) \<le> length (map py_lower J)"
    by (rule length_filter_le)
  then have mn: "real (length (filter (skill_in_resume (map py_lower R)) (map py_lower J))) \<le> real (length J)" by simp
  have n: "0 < real (length J)" using False by simp
  have J: "J \<noteq> []" and R: "R \<noteq> []" using False by simp_all
  have m0: "0 \<le> real (length (filter (skill_in_resume (map py_lower R)) (map py_lower J)))" by simp
  show ?thesis
    unfolding skills_match_unfold[OF J R] by (rule surplus_score_bounds[OF n m0 mn])
qed

lemma matching_loop_set:
  "set (matching_loop R J acc) = set acc \<union> {j \<in> set J. resume_has (py_lower j) R}"
  by (induction J arbitrary: acc) auto

lemma missing_loop_set:
  "set (missing_loop M J acc) = set acc \<union> {j \<in> set J. j \<notin> set M}"
  by (induction J arbitrary: acc) auto

lemma resume_has_iff:
  "resume_has jl R \<longleftrightarrow> (\<exists>r\<in>set R. sublist jl (py_lower r) \<or> sublist (py_lower r) jl)"
  by (induction R) (auto simp: Let_def)

lemma identify_skill_gaps_Nil: "identify_skill_gaps R [] = ([], [])"
  by (simp add: identify_skill_gaps_def)

lemma internal_gaps:
  assumes "calculate_match_internal sm fi now resume job = Inr r"
  shows "(matching_skills r, missing_skills r) =
     identify_skill_gaps
       (dict_get (normalize_skills sm (r_skills resume)) ''technical''
          @ dict_get (normalize_skills sm (r_skills resume)) ''soft'')
       (dict_get (normalize_skills sm (j_skills job)) ''technical''
          @ dict_get (normalize_skills sm (j_skills job)) ''soft'')"
proof -
  from assms obtain x where
    x: "calculate_experience_match fi now (r_experience resume) job = Inr x"
    by (cases "calculate_experience_match fi now (r_experience resume) job")
       (simp_all add: calculate_match_internal_def Let_def)
  show ?thesis
    using assms unfolding calculate_match_internal_def Let_def x by auto
qed

text \<open>
  C3. The matching and the missing skills that \<open>_identify_skill_gaps\<close> returns are
  disjoint, together they are exactly the job's skills, and a job skill is matching
  exactly when it contains, or is contained in, some r\'esum\'e skill (lower-cased): both
  lists are drawn from the job's skills only. The result of the internal computation
  carries these two lists for the canonical technical and soft skills of the job.
\<close>

theorem identify_skill_gaps_partition:
  "set (fst (identify_skill_gaps R J)) \<inter> set (snd (identify_skill_gaps R J)) = {}
   \<and> set (fst (identify_skill_gaps R J)) \<union> set (snd (identify_skill_gaps R J)) = set J
   \<and> set (fst (identify_skill_gaps R J)) =
       {j \<in> set J. \<exists>r\<in>set R. sublist (py_lower j) (py_lower r)
                                 \<or> sublist (py_lower r) (py_lower j)}
   \<and> (calculate_match_internal sm fi now resume job = Inr res
        \<longrightarrow> set (matching_skills res) \<inter> set (missing_skills res) = {}
            \<and> set (matching_skills res) \<union> set (missing_skills res) =
                set (dict_get (normalize_skills sm (j_skills job)) ''technical''
                       @ dict_get (normalize_skills sm (j_skills job)) ''soft''))"
proof -
  have p: "set (fst (identify_skill_gaps R J)) \<inter> set (snd (identify_skill_gaps R J)) = {}
     \<and> set (fst (identify_skill_gaps R J)) \<union> set (snd (identify_skill_gaps R J)) = set J
     \<and> set (fst (identify_skill_gaps R J)) =
       {j \<in> set J. \<exists>r\<in>set R. sublist (py_lower j) (py_lower r)
                                 \<or> sublist (py_lower r) (py_lower j)}" for R J
    by (auto simp: identify_skill_gaps_def Let_def matching_loop_set missing_loop_set
          resume_has_iff)
  have "set (matching_skills res) \<inter> set (missing_skills res) = {}
            \<and> set (matching_skills res) \<union> set (missing_skills res) =
                set (dict_get (normalize_skills sm (j_skills job)) ''technical''
                       @ dict_get (normalize_skills sm (j_skills job)) ''soft'')"
    if "calculate_match_internal sm fi now resume job = Inr res"
  proof -
    define G where "G = identify_skill_gaps
       (dict_get (normalize_skills sm (r_skills resume)) ''technical''
          @ dict_get (normalize_skills sm (r_skills resume)) ''soft'')
       (dict_get (normalize_skills sm (j_skills job)) ''technical''
          @ dict_get (normalize_skills sm (j_skills job)) ''soft'')"
    define Js where "Js = dict_get (normalize_skills sm (j_skills job)) ''technical''
          @ dict_get (normalize_skills sm (j_skills job)) ''soft''"
    from internal_gaps[OF that] have m: "matching_skills res = fst G"
      and g: "missing_skills res = snd G"
      unfolding G_def by (metis fst_conv, metis snd_conv)
    have "set (fst G) \<inter> set (snd G) = {} \<and> set (fst G) \<union> set (snd G) = set Js"
      unfolding G_def Js_def using p by blast
    then show ?thesis unfolding m g Js_def .
  qed
  with p show ?thesis by blast
qed

lemma scenario_A_gaps:
  "identify_skill_gaps [''Python'', ''SQL''] [''Python'', ''Django'', ''SQL'']
     = ([''Python'', ''SQL''], [''Django''])"
  by code_simp

lemma scenario_A_internal:
  "calculate_match_internal load_default_mappings example_fromisoformat
     ''2024-06-30T12:00:00'' example_resume scenario_A_job = Inr scenario_A_result"
  by code_simp

theorem identify_skill_gaps_partition_witness:
  "identify_skill_gaps [''Python'', ''SQL''] [''Python'', ''Django'', ''SQL'']
     = ([''Python'', ''SQL''], [''Django''])
   \<and> calculate_match_internal load_default_mappings example_fromisoformat
        ''2024-06-30T12:00:00'' example_resume scenario_A_job = Inr scenario_A_result
   \<and> matching_skills scenario_A_result = [''Python'', ''SQL'']
   \<and> missing_skills scenario_A_result = [''Django'']
   \<and> set (matching_skills scenario_A_result) \<inter> set (missing_skills scenario_A_result) = {}"
proof -
  note t = identify_skill_gaps_partition [of "[''Python'', ''SQL'']"
      "[''Python'', ''Django'', ''SQL'']" load_default_mappings example_fromisoformat
      "''2024-06-30T12:00:00''" example_resume scenario_A_job scenario_A_result]
  from t scenario_A_internal
  have "set (matching_skills scenario_A_result) \<inter> set (missing_skills scenario_A_result) = {}"
    by blast
  moreover have "matching_skills scenario_A_result = [''Python'', ''SQL'']"
    "missing_skills scenario_A_result = [''Django'']"
    by (simp_all add: scenario_A_result_def)
  ultimately show ?thesis using scenario_A_gaps scenario_A_internal by blast
qed

text \<open>
  C5. Appending a skill of the job to the r\'esum\'e's skill list never lowers the value of
  \<open>_calculate_skills_match\<close>.
\<close>

theorem skills_match_monotone:
  assumes "s \<in> set J"
  shows "calculate_skills_match R J \<le> calculate_skills_match (R @ [s]) J"
proof (cases "R = []")
  case True
  then have "calculate_skills_match R J = 0"
    using assms by (auto simp: calculate_skills_match_def)
  then show ?thesis using skills_match_bounds[of "R @ [s]" J] by simp
next
  case False
  have J: "J \<noteq> []" using assms by auto
  let ?P = "skill_in_resume (map py_lower R)"
  let ?Q = "skill_in_resume (map py_lower (R @ [s]))"
  have "length (filter ?P (map py_lower J)) \<le> length (filter ?Q (map py_lower J))"
    by (rule length_filter_mono) (auto simp: skill_in_resume_iff)
  then have mm: "real (length (filter ?P (map py_lower J)))
                   \<le> real (length (filter ?Q (map py_lower J)))" by simp
  have "length (filter ?Q (map py_lower J)) \<le> length (map py_lower J)"
    by (rule length_filter_le)
  then have mn: "real (length (filter ?Q (map py_lower J))) \<le> real (length J)" by simp
  have n: "0 < real (length J)" using J by simp
  have l: "real (length (R @ [s])) = real (length R) + 1" by simp
  have R': "R @ [s] \<noteq> []" by simp
  have "surplus_score (real (length (filter ?P (map py_lower J)))) (real (length J))
          (real (length R))
      \<le> surplus_score (real (length (filter ?Q (map py_lower J)))) (real (length J))
          (real (length R) + 1)"
    by (rule surplus_score_mono[OF n _ mm mn]) simp
  then show ?thesis
    unfolding skills_match_unfold[OF J False] skills_match_unfold[OF J R'] l .
qed

lemma monotone_values:
  "calculate_skills_match [''Python''] [''Python'', ''Django'', ''SQL''] = 1 / 3"
  "calculate_skills_match ([''Python''] @ [''SQL'']) [''Python'', ''Django'', ''SQL''] = 2 / 3"
  by code_simp+

theorem skills_match_monotone_witness:
  "''SQL'' \<in> set [''Python'', ''Django'', ''SQL'']
   \<and> calculate_skills_match [''Python''] [''Python'', ''Django'', ''SQL'']
        \<le> calculate_skills_match ([''Python''] @ [''SQL'']) [''Python'', ''Django'', ''SQL'']
   \<and> calculate_skills_match [''Python''] [''Python'', ''Django'', ''SQL''] = 1 / 3
   \<and> calculate_skills_match ([''Python''] @ [''SQL'']) [''Python'', ''Django'', ''SQL''] = 2 / 3"
proof -
  have h: "''SQL'' \<in> set [''Python'', ''Django'', ''SQL'']" by simp
  show ?thesis
    by (intro conjI h skills_match_monotone [OF h] monotone_values)
qed

lemma py_round2_of_int: "py_round2 (of_int n / 100) = of_int n / 100"
  by (simp add: py_round2_def Let_def)

lemma py_round2_100: "py_round2 100 = 100"
  using py_round2_of_int[of 10000] by simp

lemma normalize_skills_empty:
  "normalize_skills sm (SkillsList []) = [(''technical'', []), (''soft'', [])]"
  by (simp add: normalize_skills_def)

lemma dict_get_empty:
  "dict_get [(''technical'', []), (''soft'', [])] ''technical'' = []"
  "dict_get [(''technical'', []), (''soft'', [])] ''soft'' = []"
  by (simp_all add: dict_get_def)

lemma scenario_B:
  assumes "j_skills job = SkillsList []"
    and "calculate_match_internal sm fi now resume job = Inr res"
  shows "map_of (score_details res) ''technical_skills'' = Some 100 \<and> missing_skills res = []"
proof -
  have t: "calculate_skills_match xs (dict_get (normalize_skills sm (j_skills job)) ''technical'') = 1" for xs
    by (simp add: assms(1) normalize_skills_empty dict_get_empty calculate_skills_match_def)
  have g: "identify_skill_gaps xs (dict_get (normalize_skills sm (j_skills job)) ''technical''
             @ dict_get (normalize_skills sm (j_skills job)) ''soft'') = ([], [])" for xs
    by (simp add: assms(1) normalize_skills_empty dict_get_empty identify_skill_gaps_def)
  from assms(2) show ?thesis
    unfolding calculate_match_internal_def Let_def t g
    by (auto split: sum.splits simp: py_round2_100)
qed

lemma skills_match_card:
  "length (filter (skill_in_resume (map py_lower R)) (map py_lower J)) =
     card {i. i < length J \<and> (\<exists>r\<in>set R. sublist (py_lower r) (py_lower (J ! i))
                                           \<or> sublist (py_lower (J ! i)) (py_lower r))}"
proof -
  have "length (filter (skill_in_resume (map py_lower R)) (map py_lower J)) =
      card {i. i < length (map py_lower J) \<and> skill_in_resume (map py_lower R) (map py_lower J ! i)}"
    by (rule length_filter_conv_card)
  also have "{i. i < length (map py_lower J) \<and> skill_in_resume (map py_lower R) (map py_lower J ! i)} =
     {i. i < length J \<and> (\<exists>r\<in>set R. sublist (py_lower r) (py_lower (J ! i))
                                           \<or> sublist (py_lower (J ! i)) (py_lower r))}"
    by (auto simp: skill_in_resume_iff)
  finally show ?thesis .
qed

text \<open>
  C4. \<open>_calculate_skills_match\<close> is 1 when the job lists no skill, 0 when the job lists
  some and the r\'esum\'e none, and otherwise the share of the job's skills that contain,
  or are contained in, some r\'esum\'e skill (lower-cased), plus a bonus between 0 and
  0.15 that is 0 unless the r\'esum\'e lists more skills than the job, the sum capped at 1.
  With an empty job skill list the internal result reports \<open>technical_skills\<close> = 100 and
  no missing skill.
\<close>

theorem calculate_skills_match_cases:
  "calculate_skills_match R [] = 1
   \<and> (J \<noteq> [] \<longrightarrow> calculate_skills_match [] J = 0)
   \<and> (J \<noteq> [] \<and> R \<noteq> [] \<longrightarrow>
        (\<exists>bonus. 0 \<le> bonus \<and> bonus \<le> 15 / 100
           \<and> (length R \<le> length J \<longrightarrow> bonus = 0)
           \<and> (length R > length J \<longrightarrow>
                 bonus = min (15 / 100)
                   ((real (length R) - real (length J)) / real (length J) * (15 / 100)))
           \<and> calculate_skills_match R J =
               min 1 (real (card {i. i < length J \<and>
                                    (\<exists>r\<in>set R. sublist (py_lower r) (py_lower (J ! i))
                                                 \<or> sublist (py_lower (J ! i)) (py_lower r))})
                        / real (length J) + bonus)))
   \<and> (j_skills job = SkillsList [] \<and> calculate_match_internal sm fi now resume job = Inr res
        \<longrightarrow> map_of (score_details res) ''technical_skills'' = Some 100
            \<and> missing_skills res = [])"
proof (intro conjI impI)
  show "calculate_skills_match R [] = 1" by (simp add: calculate_skills_match_def)
next
  assume "J \<noteq> []"
  then show "calculate_skills_match [] J = 0" by (simp add: calculate_skills_match_def)
next
  assume "j_skills job = SkillsList [] \<and> calculate_match_internal sm fi now resume job = Inr res"
  then show "map_of (score_details res) ''technical_skills'' = Some 100"
    and "missing_skills res = []"
    using scenario_B by blast+
next
  assume a: "J \<noteq> [] \<and> R \<noteq> []"
  define m where "m = real (card {i. i < length J \<and>
      (\<exists>r\<in>set R. sublist (py_lower r) (py_lower (J ! i)) \<or> sublist (py_lower (J ! i)) (py_lower r))})"
  define n where "n = real (length J)"
  define r where "r = real (length R)"
  define bonus where "bonus = (if r > n then min (15 / 100) ((r - n) / n * (15 / 100)) else 0)"
  have n: "0 < n" using a by (simp add: n_def)
  have mle: "m \<le> n"
    unfolding m_def n_def skills_match_card[symmetric]
    using length_filter_le[of "skill_in_resume (map py_lower R)" "map py_lower J"] by simp
  have m0: "0 \<le> m" by (simp add: m_def)
  have q1: "m / n \<le> 1" using n mle by simp
  have b0: "0 \<le> bonus" using n by (simp add: bonus_def)
  have b1: "bonus \<le> 15 / 100"
  proof (cases "r > n")
    case True
    then have "bonus = min (15 / 100) ((r - n) / n * (15 / 100))"
      by (simp only: bonus_def if_True)
    then show ?thesis by (simp only: min.cobounded1)
  next
    case False
    then have "bonus = 0" by (simp only: bonus_def if_False)
    then show ?thesis by simp
  qed
  have v: "calculate_skills_match R J = min 1 (m / n + bonus)"
  proof (cases "r > n")
    case True
    then show ?thesis
      using a unfolding skills_match_unfold[OF conjunct1[OF a] conjunct2[OF a]] skills_match_card
        surplus_score_def bonus_def m_def n_def r_def by simp
  next
    case False
    then have "calculate_skills_match R J = m / n"
      using a unfolding skills_match_unfold[OF conjunct1[OF a] conjunct2[OF a]] skills_match_card
        surplus_score_def m_def n_def r_def by simp
    then show ?thesis using False q1 by (simp add: bonus_def)
  qed
  show "\<exists>bonus. 0 \<le> bonus \<and> bonus \<le> 15 / 100
           \<and> (length R \<le> length J \<longrightarrow> bonus = 0)
           \<and> (length R > length J \<longrightarrow>
                 bonus = min (15 / 100)
                   ((real (length R) - real (length J)) / real (length J) * (15 / 100)))
           \<and> calculate_skills_match R J =
               min 1 (real (card {i. i < length J \<and>
                                    (\<exists>r\<in>set R. sublist (py_lower r) (py_lower (J ! i))
                                                 \<or> sublist (py_lower (J ! i)) (py_lower r))})
                        / real (length J) + bonus)"
  proof (intro exI[of _ bonus] conjI impI)
    show "0 \<le> bonus" by (rule b0)
    show "bonus \<le> 15 / 100" by (rule b1)
    show "bonus = 0" if "length R \<le> length J"
      using that by (simp add: bonus_def r_def n_def)
    show "bonus = min (15 / 100) ((real (length R) - real (length J)) / real (length J) * (15 / 100))"
      if "length R > length J"
      using that by (simp add: bonus_def r_def n_def)
    show "calculate_skills_match R J =
               min 1 (real (card {i. i < length J \<and>
                                    (\<exists>r\<in>set R. sublist (py_lower r) (py_lower (J ! i))
                                                 \<or> sublist (py_lower (J ! i)) (py_lower r))})
                        / real (length J) + bonus)"
      using v by (simp add: m_def n_def)
  qed
qed

lemma example_internal:
  "calculate_match_internal load_default_mappings example_fromisoformat
     ''2024-06-30T12:00:00'' example_resume example_job = Inr example_result"
  by code_simp

lemma scenario_A_score:
  "calculate_skills_match [''Python'', ''SQL''] [''Python'', ''Django'', ''SQL''] = 2 / 3"
  by code_simp

theorem calculate_skills_match_cases_witness:
  "calculate_skills_match [''Python'', ''SQL''] [] = 1
   \<and> calculate_skills_match [''Python'', ''SQL''] [''Python'', ''Django'', ''SQL''] = 2 / 3
   \<and> j_skills example_job = SkillsList []
   \<and> calculate_match_internal load_default_mappings example_fromisoformat
        ''2024-06-30T12:00:00'' example_resume example_job = Inr example_result
   \<and> map_of (score_details example_result) ''technical_skills'' = Some 100
   \<and> missing_skills example_result = []"
proof -
  note t = calculate_skills_match_cases [of "[''Python'', ''SQL'']" "[''Python'', ''Django'', ''SQL'']"
      example_job load_default_mappings example_fromisoformat "''2024-06-30T12:00:00''"
      example_resume example_result]
  have j: "j_skills example_job = SkillsList []" by (simp add: example_job_def)
  from t have "map_of (score_details example_result) ''technical_skills'' = Some 100
      \<and> missing_skills example_result = []"
    using j example_internal by blast
  with t j example_internal scenario_A_score show ?thesis by blast
qed

subsection \<open>Job title\<close>

text \<open>
  C10. \<open>_calculate_job_title_match\<close> is exactly 0.5 when a title is empty or the words
  of a title are all stop words; in every other case it is the Jaccard coefficient of the
  two word sets, raised by 0.3 (at most to 1) when a r\'esum\'e word of more than three
  characters occurs in the lower-cased job title.
\<close>

theorem job_title_match_neutral:
  "(resume_title = [] \<or> job_title = []
      \<or> set (py_split (py_lower resume_title)) - stop_words = {}
      \<or> set (py_split (py_lower job_title)) - stop_words = {}
    \<longrightarrow> calculate_job_title_match resume_title job_title = 1 / 2)
   \<and> (\<not> (resume_title = [] \<or> job_title = []
          \<or> set (py_split (py_lower resume_title)) - stop_words = {}
          \<or> set (py_split (py_lower job_title)) - stop_words = {})
    \<longrightarrow> calculate_job_title_match resume_title job_title =
          (let resume_words = set (py_split (py_lower resume_title)) - stop_words;
               job_words = set (py_split (py_lower job_title)) - stop_words;
               jaccard = real (card (resume_words \<inter> job_words))
                           / real (card (resume_words \<union> job_words))
           in if \<exists>word\<in>resume_words. length word > 3 \<and> sublist word (py_lower job_title)
              then min 1 (jaccard + 3 / 10) else jaccard))"
  by (simp add: calculate_job_title_match_def Let_def)

lemma title_values:
  "set (py_split (py_lower ''de da'')) - stop_words = {}"
  "calculate_job_title_match ''de da'' ''Engineer'' = 1 / 2"
  by code_simp+

theorem job_title_match_neutral_witness:
  "set (py_split (py_lower ''de da'')) - stop_words = {}
   \<and> calculate_job_title_match ''de da'' ''Engineer'' = 1 / 2"
proof -
  have h: "set (py_split (py_lower ''de da'')) - stop_words = {}" by (rule title_values)
  from job_title_match_neutral [of "''de da''" "''Engineer''"] h
  have "calculate_job_title_match ''de da'' ''Engineer'' = 1 / 2" by blast
  with h show ?thesis by (rule conjI)
qed

subsection \<open>Education\<close>

lemma requirement_loop_none:
  "(\<forall>req\<in>set reqs. \<not> mentions_education (py_lower req))
     \<Longrightarrow> requirement_loop reqs = (False, None, None)"
  by (induction reqs) (simp_all add: Let_def)

lemma mentions_education_iff:
  "mentions_education req_lower \<longleftrightarrow> (\<exists>term\<in>set education_terms. sublist term req_lower)"
  by (simp add: mentions_education_def list_ex_iff)

text \<open>
  C7 as the claim states it fails: with an empty education list the function returns 0.0
  before it looks at the job, also when no requirement mentions education.
\<close>

theorem education_match_empty_counterexample:
  "\<not> mentions_education (py_lower ''5 years of Python'')
   \<and> calculate_education_match [] example_job \<noteq> 1"
  by code_simp

text \<open>
  C7, amended. For a r\'esum\'e with at least one education entry,
  \<open>_calculate_education_match\<close> returns 1.0 when no requirement text of the job contains
  one of the education keywords; for a r\'esum\'e with no education entry it returns 0.0
  whatever the job requires.
\<close>

theorem education_match_no_requirement:
  "(resume_education \<noteq> []
      \<and> (\<forall>req\<in>set (j_requirements job). \<forall>term\<in>set education_terms.
            \<not> sublist term (py_lower req))
    \<longrightarrow> calculate_education_match resume_education job = 1)
   \<and> calculate_education_match [] job = 0"
proof (intro conjI impI)
  assume a: "resume_education \<noteq> []
      \<and> (\<forall>req\<in>set (j_requirements job). \<forall>term\<in>set education_terms.
            \<not> sublist term (py_lower req))"
  then have "\<forall>req\<in>set (j_requirements job). \<not> mentions_education (py_lower req)"
    by (simp add: mentions_education_iff)
  then have "requirement_loop (j_requirements job) = (False, None, None)"
    by (rule requirement_loop_none)
  then show "calculate_education_match resume_education job = 1"
    using a by (simp add: calculate_education_match_def)
next
  show "calculate_education_match [] job = 0" by (simp add: calculate_education_match_def)
qed

lemma education_values:
  "list_all (\<lambda>req. list_all (\<lambda>term. \<not> sublist term (py_lower req)) education_terms)
     (j_requirements example_job)"
  "r_education example_resume \<noteq> []"
  by code_simp+

theorem education_match_no_requirement_witness:
  "r_education example_resume \<noteq> []
   \<and> list_all (\<lambda>req. list_all (\<lambda>term. \<not> sublist term (py_lower req)) education_terms)
        (j_requirements example_job)
   \<and> calculate_education_match (r_education example_resume) example_job = 1
   \<and> calculate_education_match [] example_job = 0"
proof -
  note t = education_match_no_requirement [of "r_education example_resume" example_job]
  have h: "\<forall>req\<in>set (j_requirements example_job). \<forall>term\<in>set education_terms.
            \<not> sublist term (py_lower req)"
    using education_values(1) by (simp add: list_all_iff)
  from t h education_values(2)
  have "calculate_education_match (r_education example_resume) example_job = 1" by blast
  moreover from t have "calculate_education_match [] example_job = 0" by blast
  ultimately show ?thesis using education_values by blast
qed

subsection \<open>Experience\<close>

lemma experience_loop_total:
  "experience_loop fi now title exps (t, r) = Inr (t', r')
     \<Longrightarrow> t' = t + (\<Sum>e\<leftarrow>exps. entry_months fi now e)"
proof (induction exps arbitrary: t r)
  case Nil
  then show ?case by simp
next
  case (Cons e exps)
  show ?case
  proof (cases "exp_start_date e")
    case Absent
    with Cons show ?thesis by (simp add: entry_months_def)
  next
    case PyNone
    with Cons show ?thesis by (simp add: entry_months_def)
  next
    case (PyStr s)
    show ?thesis
    proof (cases "s = []")
      case True
      with PyStr Cons show ?thesis by (simp add: entry_months_def)
    next
      case False
      show ?thesis
      proof (cases "fi (replace_Z s)")
        case None
        with PyStr False Cons.prems have
          "experience_loop fi now title exps (t + 12, r) = Inr (t', r')" by simp
        from Cons.IH[OF this] show ?thesis
          using PyStr False None by (simp add: entry_months_def)
      next
        case (Some sd)
        obtain sy sm where sd: "sd = (sy, sm)" by (cases sd) auto
        show ?thesis
        proof (cases "exp_end_date e = PyNone")
          case True
          with PyStr False Some sd Cons.prems show ?thesis by simp
        next
          case ne: False
          define ed where "ed = (case exp_end_date e of PyStr s \<Rightarrow> s | _ \<Rightarrow> now)"
          show ?thesis
          proof (cases "fi (replace_Z ed)")
            case None
            with PyStr False Some sd ne Cons.prems have
              "experience_loop fi now title exps (t + 12, r) = Inr (t', r')"
              by (cases "exp_end_date e") (simp_all add: ed_def)
            from Cons.IH[OF this] show ?thesis
              using PyStr False Some sd None by (simp add: entry_months_def ed_def)
          next
            case Some2: (Some e2)
            obtain ey em where e2: "e2 = (ey, em)" by (cases e2) auto
            from PyStr False Some sd ne Some2 e2 Cons.prems obtain r2 where
              "experience_loop fi now title exps (t + ((ey - sy) * 12 + (em - sm)), r2) = Inr (t', r')"
              by (cases "exp_end_date e") (simp_all add: ed_def Let_def)
            from Cons.IH[OF this] show ?thesis
              using PyStr False Some sd Some2 e2 by (simp add: entry_months_def ed_def)
          qed
        qed
      qed
    qed
  qed
qed

lemma experience_loop_returns:
  "(\<forall>e\<in>set exps. exp_end_date e \<noteq> PyNone)
     \<Longrightarrow> \<exists>t' r'. experience_loop fi now title exps (t, r) = Inr (t', r')"
proof (induction exps arbitrary: t r)
  case Nil
  then show ?case by simp
next
  case (Cons e exps)
  then have ne: "exp_end_date e \<noteq> PyNone"
    and ih: "\<And>t r. \<exists>t' r'. experience_loop fi now title exps (t, r) = Inr (t', r')"
    by simp_all
  show ?case
    using ne ih
    by (cases "exp_end_date e")
       (auto simp: Let_def split: date_field.splits option.splits)
qed

text \<open>
  C8 as the claim states it fails: an entry whose start date is the empty string, or is
  missing, has no date that parses and yet adds nothing to the total, because the loop
  skips an entry with no start date before it parses anything.
\<close>

theorem experience_unparseable_counterexample:
  "example_fromisoformat (replace_Z []) = None
   \<and> example_fromisoformat (replace_Z ''Presente'') = None
   \<and> experience_loop example_fromisoformat ''2024-06-30T12:00:00'' ''Developer''
        [\<lparr>exp_title = ''Trainee'', exp_start_date = PyStr [],
          exp_end_date = PyStr ''Presente''\<rparr>] (0, 0) = Inr (0, 0)
   \<and> experience_loop example_fromisoformat ''2024-06-30T12:00:00'' ''Developer''
        [\<lparr>exp_title = ''Trainee'', exp_start_date = PyStr [],
          exp_end_date = PyStr ''Presente''\<rparr>] (0, 0) \<noteq> Inr (12, 0)"
  by code_simp

text \<open>
  C8, amended. In \<open>_calculate_experience_match\<close> the total is the sum of what each entry
  adds on its own. An entry with a non-empty start date string adds exactly 12 months
  when the start date, or else the end date string (the current time for an absent end
  date), does not parse, and the difference of the two dates in months when both parse.
  An entry whose start date is missing, \<open>None\<close> or empty adds nothing. The loop returns
  for every list none of whose entries has the end date \<open>None\<close>.
\<close>

theorem experience_months_by_entry:
  "(experience_loop fi now title exps (0, 0) = Inr (total_months, relevant)
      \<longrightarrow> total_months = (\<Sum>e\<leftarrow>exps. entry_months fi now e))
   \<and> ((\<forall>e\<in>set exps. exp_end_date e \<noteq> PyNone)
      \<longrightarrow> (\<exists>t r. experience_loop fi now title exps (0, 0) = Inr (t, r)))
   \<and> (exp_start_date entry = PyStr s \<and> s \<noteq> [] \<and> fi (replace_Z s) = None
      \<longrightarrow> entry_months fi now entry = 12)
   \<and> (exp_start_date entry = PyStr s \<and> s \<noteq> [] \<and> fi (replace_Z s) = Some (sy, sm)
        \<and> fi (replace_Z (case exp_end_date entry of PyStr d \<Rightarrow> d | _ \<Rightarrow> now)) = None
      \<longrightarrow> entry_months fi now entry = 12)
   \<and> (exp_start_date entry = PyStr s \<and> s \<noteq> [] \<and> fi (replace_Z s) = Some (sy, sm)
        \<and> fi (replace_Z (case exp_end_date entry of PyStr d \<Rightarrow> d | _ \<Rightarrow> now)) = Some (ey, em)
      \<longrightarrow> entry_months fi now entry = (ey - sy) * 12 + (em - sm))
   \<and> (exp_start_date entry \<in> {Absent, PyNone, PyStr []}
      \<longrightarrow> entry_months fi now entry = 0)"
proof (intro conjI impI)
  assume "experience_loop fi now title exps (0, 0) = Inr (total_months, relevant)"
  from experience_loop_total[OF this]
  show "total_months = (\<Sum>e\<leftarrow>exps. entry_months fi now e)" by simp
next
  assume "\<forall>e\<in>set exps. exp_end_date e \<noteq> PyNone"
  then show "\<exists>t r. experience_loop fi now title exps (0, 0) = Inr (t, r)"
    by (rule experience_loop_returns)
qed (auto simp: entry_months_def)

lemma example_experience_values:
  "experience_loop example_fromisoformat ''2024-06-30T12:00:00'' ''Developer''
     example_experience (0, 0) = Inr (50, 26)"
  "map (entry_months example_fromisoformat ''2024-06-30T12:00:00'') example_experience
     = [26, 12, 12, 0, 0]"
  "list_all (\<lambda>e. exp_end_date e \<noteq> PyNone) example_experience"
  by code_simp+

theorem experience_months_by_entry_witness:
  "experience_loop example_fromisoformat ''2024-06-30T12:00:00'' ''Developer''
     example_experience (0, 0) = Inr (50, 26)
   \<and> map (entry_months example_fromisoformat ''2024-06-30T12:00:00'') example_experience
       = [26, 12, 12, 0, 0]
   \<and> (50 :: int) = (\<Sum>e\<leftarrow>example_experience.
                       entry_months example_fromisoformat ''2024-06-30T12:00:00'' e)"
proof -
  note t = experience_months_by_entry [of example_fromisoformat "''2024-06-30T12:00:00''"
      "''Developer''" example_experience 50 26]
  from t example_experience_values(1)
  have "(50 :: int) = (\<Sum>e\<leftarrow>example_experience.
                       entry_months example_fromisoformat ''2024-06-30T12:00:00'' e)"
    by blast
  with example_experience_values show ?thesis by blast
qed

subsection \<open>Batch analysis\<close>

lemma batch_loop_eq:
  "batch_loop step jobs acc =
     acc @ map (\<lambda>job_data. case step job_data of
                               Inr analyzed_job \<Rightarrow> analyzed_job
                             | Inl e \<Rightarrow> set_error job_data e) jobs"
  by (induction jobs arbitrary: acc) (auto split: sum.splits)

lemma analyze_returns: "\<exists>r. analyze self now job uc = Inr r"
  by (auto simp: analyze_def Let_def split: option.splits sum.splits)

lemma set_error_lookup:
  "map_of (set_error job e) ''error'' = Some (VStr (str e))"
  "k \<noteq> ''error'' \<Longrightarrow> map_of (set_error job e) k = map_of job k"
  by (simp_all add: set_error_def update_conv')

text \<open>
  C9. \<open>analyze_job_batch\<close> returns one result for each posting, in the order of the
  postings: the result of the analysis of that posting, or, when the analysis raises,
  that posting with the exception's text stored under \<open>error\<close>; the loop goes on to the
  next posting in both cases. This holds for any analysis step in the place of
  \<open>analyze\<close>. \<open>analyze\<close> itself never raises: an exception of the extraction is caught
  there and the posting comes back with its \<open>error\<close> entry.
\<close>

theorem analyze_job_batch_isolation:
  "length (batch_loop step jobs []) = length jobs
   \<and> (\<forall>i<length jobs.
         (\<forall>r. step (jobs ! i) = Inr r \<longrightarrow> batch_loop step jobs [] ! i = r)
         \<and> (\<forall>e. step (jobs ! i) = Inl e
               \<longrightarrow> batch_loop step jobs [] ! i = set_error (jobs ! i) e
                   \<and> map_of (batch_loop step jobs [] ! i) ''error'' = Some (VStr (str e))
                   \<and> (\<forall>k. k \<noteq> ''error''
                          \<longrightarrow> map_of (batch_loop step jobs [] ! i) k = map_of (jobs ! i) k)))
   \<and> length (analyze_job_batch self now jobs uc) = length jobs
   \<and> (\<forall>i<length jobs. analyze self now (jobs ! i) uc
                          = Inr (analyze_job_batch self now jobs uc ! i))
   \<and> (truthy description \<and> map_of job ''description'' = Some description
        \<and> (uc \<longrightarrow> claude_service self = None)
        \<and> extract_job_data self description = Inl e
      \<longrightarrow> analyze self now job uc = Inr (set_error job e))"
proof (intro conjI allI impI)
  show "length (batch_loop step jobs []) = length jobs" by (simp add: batch_loop_eq)
  show "length (analyze_job_batch self now jobs uc) = length jobs"
    by (simp add: analyze_job_batch_def batch_loop_eq)
next
  fix i r assume "i < length jobs" "step (jobs ! i) = Inr r"
  then show "batch_loop step jobs [] ! i = r" by (simp add: batch_loop_eq)
next
  fix i e assume a: "i < length jobs" "step (jobs ! i) = Inl e"
  then show b: "batch_loop step jobs [] ! i = set_error (jobs ! i) e"
    by (simp add: batch_loop_eq)
  show "map_of (batch_loop step jobs [] ! i) ''error'' = Some (VStr (str e))"
    unfolding b by (rule set_error_lookup)
  fix k :: string assume "k \<noteq> ''error''"
  then show "map_of (batch_loop step jobs [] ! i) k = map_of (jobs ! i) k"
    unfolding b by (rule set_error_lookup)
next
  fix i assume i: "i < length jobs"
  obtain r where r: "analyze self now (jobs ! i) uc = Inr r" using analyze_returns by blast
  with i show "analyze self now (jobs ! i) uc = Inr (analyze_job_batch self now jobs uc ! i)"
    by (simp add: analyze_job_batch_def batch_loop_eq)
next
  assume "truthy description \<and> map_of job ''description'' = Some description
        \<and> (uc \<longrightarrow> claude_service self = None)
        \<and> extract_job_data self description = Inl e"
  then show "analyze self now job uc = Inr (set_error job e)"
    by (auto simp: analyze_def analyze_internal_def Let_def)
qed

lemma example_batch:
  "analyze_job_batch example_analyzer ''2024-06-30T12:00:00'' example_postings False =
     [[(''title'', VStr ''A''), (''description'', VStr ''boom''),
       (''error'', VStr ''bad pattern'')],
      [(''title'', VStr ''B''), (''description'', VStr ''Python developer''),
       (''location'', VStr ''Remote''), (''skills'', VList [VStr ''python'']),
       (''analyzed_at'', VStr ''2024-06-30T12:00:00'')],
      [(''error'', VStr (''Descri'' @ [CHR 0xE7, CHR 0xE3] @ ''o da vaga est''
                           @ [CHR 0xE1] @ '' vazia'')),
       (''original_data'', VDict [(''title'', VStr ''C'')])]]"
  by code_simp

lemma example_batch_hyps:
  "truthy (VStr ''boom'')"
  "map_of (example_postings ! 0) ''description'' = Some (VStr ''boom'')"
  "claude_service example_analyzer = None"
  "extract_job_data example_analyzer (VStr ''boom'') = Inl (Exception ''bad pattern'')"
  "(0::nat) < length example_postings"
  by code_simp+

theorem analyze_job_batch_isolation_witness:
  "(0::nat) < length example_postings
   \<and> truthy (VStr ''boom'')
   \<and> map_of (example_postings ! 0) ''description'' = Some (VStr ''boom'')
   \<and> claude_service example_analyzer = None
   \<and> extract_job_data example_analyzer (VStr ''boom'') = Inl (Exception ''bad pattern'')
   \<and> analyze example_analyzer ''2024-06-30T12:00:00'' (example_postings ! 0) False
        = Inr (set_error (example_postings ! 0) (Exception ''bad pattern''))
   \<and> analyze example_analyzer ''2024-06-30T12:00:00'' (example_postings ! 0) False
        = Inr (analyze_job_batch example_analyzer ''2024-06-30T12:00:00'' example_postings False ! 0)
   \<and> length (analyze_job_batch example_analyzer ''2024-06-30T12:00:00'' example_postings False)
        = length example_postings"
proof -
  note t = analyze_job_batch_isolation [of
      "\<lambda>job_data. analyze example_analyzer ''2024-06-30T12:00:00'' job_data False"
      example_postings example_analyzer "''2024-06-30T12:00:00''" False
      "VStr ''boom''" "example_postings ! 0" "Exception ''bad pattern''"]
  from t example_batch_hyps
  have 1: "analyze example_analyzer ''2024-06-30T12:00:00'' (example_postings ! 0) False
        = Inr (set_error (example_postings ! 0) (Exception ''bad pattern''))" by blast
  from t example_batch_hyps(5)
  have 2: "analyze example_analyzer ''2024-06-30T12:00:00'' (example_postings ! 0) False
        = Inr (analyze_job_batch example_analyzer ''2024-06-30T12:00:00'' example_postings False ! 0)"
    by blast
  from t have 3: "length (analyze_job_batch example_analyzer ''2024-06-30T12:00:00'' example_postings False)
        = length example_postings" by blast
  from 1 2 3 example_batch_hyps show ?thesis by blast
qed

subsection \<open>Skill map\<close>

lemma add_skill_mapping_lookup:
  "map_of (skill_map (add_skill_mapping self variant normalized category)) k =
     (if py_lower (py_strip variant) \<noteq> [] \<and> normalized \<noteq> []
         \<and> k = py_lower (py_strip variant)
      then Some normalized else map_of (skill_map self) k)"
  by (auto simp: add_skill_mapping_def Let_def update_conv' split: option.splits)

lemma add_skill_mappings_lookup:
  "(\<forall>call\<in>set calls. py_lower (py_strip (fst call)) \<noteq> k)
     \<Longrightarrow> map_of (skill_map (add_skill_mappings self calls)) k = map_of (skill_map self) k"
  unfolding add_skill_mappings_def
proof (induction calls arbitrary: self)
  case Nil
  then show ?case by simp
next
  case (Cons c calls)
  obtain v n cat where c: "c = (v, n, cat)" by (cases c) auto
  from Cons.prems c have ne: "py_lower (py_strip v) \<noteq> k" by simp
  from Cons.prems have rest:
    "\<forall>call\<in>set calls. py_lower (py_strip (fst call)) \<noteq> k" by simp
  show ?case
    using Cons.IH[OF rest, of "add_skill_mapping self v n cat"] ne
    by (simp add: c add_skill_mapping_lookup)
qed

lemma normalize_skill_exact:
  "map_of (skill_map self) (py_lower (py_strip a)) = Some v \<Longrightarrow> a \<noteq> []
     \<Longrightarrow> normalize_skill self a = v"
  by (simp add: normalize_skill_def Let_def)

text \<open>
  C6 as the claim states it fails: \<open>add_skill_mapping\<close> stores the canonical name under
  the variant whether or not the variant is already an alias, so a call for the alias
  \<open>js\<close> changes what \<open>normalize_skill\<close> returns for it.
\<close>

theorem add_skill_mapping_overwrites_counterexample:
  "map_of (skill_map load_default_mappings) ''js'' = Some ''JavaScript''
   \<and> normalize_skill load_default_mappings ''js'' = ''JavaScript''
   \<and> normalize_skill (add_skill_mapping load_default_mappings ''js'' ''JScript'' None) ''js''
        = ''JScript''"
  by code_simp

text \<open>
  C6, amended. For an alias whose stripped, lower-cased form is a key of the skill map,
  \<open>normalize_skill\<close> returns the same canonical name after any sequence of
  \<open>add_skill_mapping\<close> calls none of which registers a variant with that stripped,
  lower-cased form; a call that registers it again replaces the canonical name.
\<close>

theorem add_skill_mapping_preserves_other_aliases:
  "(map_of (skill_map self) (py_lower (py_strip a)) \<noteq> None
      \<and> (\<forall>call\<in>set calls. py_lower (py_strip (fst call)) \<noteq> py_lower (py_strip a))
    \<longrightarrow> normalize_skill (add_skill_mappings self calls) a = normalize_skill self a)
   \<and> (py_lower (py_strip variant) = py_lower (py_strip a) \<and> a \<noteq> []
        \<and> py_lower (py_strip variant) \<noteq> [] \<and> normalized \<noteq> []
    \<longrightarrow> normalize_skill (add_skill_mapping self variant normalized category) a = normalized)"
proof (intro conjI impI)
  assume a: "map_of (skill_map self) (py_lower (py_strip a)) \<noteq> None
      \<and> (\<forall>call\<in>set calls. py_lower (py_strip (fst call)) \<noteq> py_lower (py_strip a))"
  then obtain v where v: "map_of (skill_map self) (py_lower (py_strip a)) = Some v" by auto
  from a have "map_of (skill_map (add_skill_mappings self calls)) (py_lower (py_strip a))
      = map_of (skill_map self) (py_lower (py_strip a))"
    by (intro add_skill_mappings_lookup) simp
  then have v': "map_of (skill_map (add_skill_mappings self calls)) (py_lower (py_strip a)) = Some v"
    using v by simp
  show "normalize_skill (add_skill_mappings self calls) a = normalize_skill self a"
  proof (cases "a = []")
    case True
    then show ?thesis by (simp add: normalize_skill_def)
  next
    case False
    then show ?thesis
      using normalize_skill_exact[OF v False] normalize_skill_exact[OF v' False] by simp
  qed
next
  assume b: "py_lower (py_strip variant) = py_lower (py_strip a) \<and> a \<noteq> []
        \<and> py_lower (py_strip variant) \<noteq> [] \<and> normalized \<noteq> []"
  from b have "py_lower (py_strip variant) = py_lower (py_strip a)" by (rule conjunct1)
  then have e: "py_lower (py_strip a) = py_lower (py_strip variant)" by (rule sym)
  from b have n1: "py_lower (py_strip variant) \<noteq> []" by (elim conjE)
  from b have n2: "normalized \<noteq> []" by (elim conjE)
  note n = n1 n2
  have "map_of (skill_map (add_skill_mapping self variant normalized category))
               (py_lower (py_strip a)) = Some normalized"
    unfolding e add_skill_mapping_lookup using n by simp
  from normalize_skill_exact[OF this] b
  show "normalize_skill (add_skill_mapping self variant normalized category) a = normalized"
    by simp
qed

lemma example_calls:
  "map_of (skill_map load_default_mappings) (py_lower (py_strip ''js'')) \<noteq> None"
  "list_all (\<lambda>call. py_lower (py_strip (fst call)) \<noteq> py_lower (py_strip ''js''))
     [('' Ecma '', ''JavaScript'', Some ''technical''), (''py'', ''CPython'', None)]"
  "normalize_skill load_default_mappings ''js'' = ''JavaScript''"
  "normalize_skill load_default_mappings ''py'' = ''Python''"
  "normalize_skill
     (add_skill_mappings load_default_mappings
        [('' Ecma '', ''JavaScript'', Some ''technical''), (''py'', ''CPython'', None)]) ''py''
     = ''CPython''"
  by code_simp+

theorem add_skill_mapping_preserves_other_aliases_witness:
  "map_of (skill_map load_default_mappings) (py_lower (py_strip ''js'')) \<noteq> None
   \<and> list_all (\<lambda>call. py_lower (py_strip (fst call)) \<noteq> py_lower (py_strip ''js''))
        [('' Ecma '', ''JavaScript'', Some ''technical''), (''py'', ''CPython'', None)]
   \<and> normalize_skill
        (add_skill_mappings load_default_mappings
           [('' Ecma '', ''JavaScript'', Some ''technical''), (''py'', ''CPython'', None)]) ''js''
       = normalize_skill load_default_mappings ''js''
   \<and> normalize_skill load_default_mappings ''js'' = ''JavaScript''"
proof -
  note t = add_skill_mapping_preserves_other_aliases [of load_default_mappings "''js''"
      "[('' Ecma '', ''JavaScript'', Some ''technical''), (''py'', ''CPython'', None)]"]
  have h: "\<forall>call\<in>set [('' Ecma '', ''JavaScript'', Some ''technical''),
                         (''py'', ''CPython'', None)].
            py_lower (py_strip (fst call)) \<noteq> py_lower (py_strip ''js'')"
    using example_calls(2) by (simp only: list_all_iff)
  from t h example_calls(1)
  have "normalize_skill
        (add_skill_mappings load_default_mappings
           [('' Ecma '', ''JavaScript'', Some ''technical''), (''py'', ''CPython'', None)]) ''js''
       = normalize_skill load_default_mappings ''js''" by blast
  with example_calls show ?thesis by blast
qed

subsection \<open>The match result\<close>

lemma level_gap_score_bounds:
  assumes "0 \<le> k"
  shows "0 \<le> level_gap_score c q k \<and> level_gap_score c q k \<le> 1"
proof (cases "c \<ge> q")
  case True
  then show ?thesis by (simp add: level_gap_score_def)
next
  case False
  then have "0 \<le> real_of_int (q - c) * k" using assms by simp
  then show ?thesis using False by (simp add: level_gap_score_def)
qed

lemma experience_match_unfold:
  assumes "exps \<noteq> []"
    and "experience_loop fi now (j_title job) exps (0, 0) = Inr (t, r)"
  shows "calculate_experience_match fi now exps job =
    Inr (if r > 0
         then min 1 (level_gap_score (candidate_level_of t)
                       (case List.find (\<lambda>(level, value).
                                sublist level (py_lower (j_experience_level job)))
                             experience_levels of
                          Some (level, value) \<Rightarrow> value | None \<Rightarrow> 0) (25 / 100)
                     + min (2 / 10) (real_of_int r / 36 * (2 / 10)))
         else level_gap_score (candidate_level_of t)
                (case List.find (\<lambda>(level, value).
                         sublist level (py_lower (j_experience_level job)))
                      experience_levels of
                   Some (level, value) \<Rightarrow> value | None \<Rightarrow> 0) (25 / 100))"
  unfolding calculate_experience_match_def Let_def level_gap_score_def
  using assms by simp

lemma experience_match_bounds:
  assumes "calculate_experience_match fi now exps job = Inr x"
  shows "0 \<le> x \<and> x \<le> 1"
proof (cases "exps = []")
  case True
  with assms show ?thesis by (simp add: calculate_experience_match_def)
next
  case False
  from assms False obtain t r where
    l: "experience_loop fi now (j_title job) exps (0, 0) = Inr (t, r)"
    by (cases "experience_loop fi now (j_title job) exps (0, 0)")
       (auto simp: calculate_experience_match_def Let_def)
  define s where "s = level_gap_score (candidate_level_of t)
                (case List.find (\<lambda>(level, value).
                         sublist level (py_lower (j_experience_level job)))
                      experience_levels of
                   Some (level, value) \<Rightarrow> value | None \<Rightarrow> 0) (25 / 100)"
  have s: "0 \<le> s \<and> s \<le> 1" unfolding s_def by (rule level_gap_score_bounds) simp
  have x: "x = (if r > 0 then min 1 (s + min (2 / 10) (real_of_int r / 36 * (2 / 10))) else s)"
    using assms unfolding experience_match_unfold[OF False l] s_def by simp
  show ?thesis
  proof (cases "r > 0")
    case True
    then have "0 \<le> min (2 / 10) (real_of_int r / 36 * (2 / 10))" by simp
    then show ?thesis using x True s by simp
  next
    case False
    then show ?thesis using x s by simp
  qed
qed

lemma education_match_bounds:
  "0 \<le> calculate_education_match edus job \<and> calculate_education_match edus job \<le> 1"
proof (cases "edus = []")
  case True
  then show ?thesis by (simp add: calculate_education_match_def)
next
  case False
  obtain er rd rf where q: "requirement_loop (j_requirements job) = (er, rd, rf)"
    by (cases "requirement_loop (j_requirements job)") auto
  obtain cl fm where c: "education_loop rf edus (0, False) = (cl, fm)"
    by (cases "education_loop rf edus (0, False)") auto
  define rl where "rl = (case rd of
                       None \<Rightarrow> 3
                     | Some d \<Rightarrow>
                         if d = [] then 3
                         else
                           (case List.find (\<lambda>(level, value). sublist d level) degree_levels of
                              Some (level, value) \<Rightarrow> value
                            | None \<Rightarrow> 3))"
  define ls where "ls = level_gap_score cl rl (3 / 10)"
  have ls: "0 \<le> ls \<and> ls \<le> 1" unfolding ls_def by (rule level_gap_score_bounds) simp
  have v: "calculate_education_match edus job =
     (if \<not> er then 1
      else case rf of
             None \<Rightarrow> ls
           | Some f \<Rightarrow> if f = [] then ls
                       else if fm then min 1 (ls + 2 / 10) else max 0 (ls - 2 / 10))"
    unfolding calculate_education_match_def Let_def ls_def rl_def level_gap_score_def
    using False by (simp add: q c)
  show ?thesis
    unfolding v using ls by (auto split: option.splits)
qed

lemma nat_ratio_bounds:
  assumes "a \<le> (b::nat)"
  shows "0 \<le> real a / real b \<and> real a / real b \<le> 1"
proof (cases "b = 0")
  case True
  then show ?thesis by simp
next
  case False
  then show ?thesis using assms by simp
qed

lemma job_title_match_bounds:
  "0 \<le> calculate_job_title_match rt jt \<and> calculate_job_title_match rt jt \<le> 1"
proof -
  define rw where "rw = set (py_split (py_lower rt)) - stop_words"
  define jw where "jw = set (py_split (py_lower jt)) - stop_words"
  define jac where "jac = real (card (rw \<inter> jw)) / real (card (rw \<union> jw))"
  have fin: "finite (rw \<union> jw)" by (simp add: rw_def jw_def)
  have "card (rw \<inter> jw) \<le> card (rw \<union> jw)"
    by (rule card_mono[OF fin]) auto
  then have j: "0 \<le> jac \<and> jac \<le> 1" unfolding jac_def by (rule nat_ratio_bounds)
  have b: "0 \<le> min 1 (jac + 3 / 10) \<and> min 1 (jac + 3 / 10) \<le> 1" using j by simp
  show ?thesis
    unfolding calculate_job_title_match_def Let_def
    using j b unfolding jac_def rw_def jw_def
    by (simp del: min.bounded_iff min_less_iff_conj)
qed

lemma py_round2_bounds:
  assumes "0 \<le> x" "x \<le> 100"
  shows "0 \<le> py_round2 x \<and> py_round2 x \<le> 100"
proof -
  define f where "f = \<lfloor>x * 100\<rfloor>"
  have f0: "0 \<le> f" using assms by (simp add: f_def)
  have f1: "f \<le> 10000" using assms by (simp add: f_def floor_le_iff)
  have top: "x * 100 - of_int f = 0" if "f = 10000"
  proof -
    have "of_int f \<le> x * 100" unfolding f_def by (rule of_int_floor_le)
    moreover have "x * 100 \<le> 10000" using assms by simp
    ultimately show ?thesis using that by simp
  qed
  have a: "0 \<le> (of_int f :: real) / 100 \<and> (of_int f :: real) / 100 \<le> 100"
    using f0 f1 by simp
  have b: "0 \<le> (of_int f + 1 :: real) / 100 \<and> (of_int f + 1 :: real) / 100 \<le> 100" if "f \<noteq> 10000"
  proof -
    from that f1 have "f + 1 \<le> 10000" by simp
    then have "(of_int (f + 1) :: real) \<le> 10000" by (simp only: of_int_le_numeral_iff)
    moreover have "0 \<le> (of_int (f + 1) :: real)" using f0 by simp
    ultimately show ?thesis by simp
  qed
  show ?thesis
  proof (cases "f = 10000")
    case True
    from top[OF True] show ?thesis
      using a by (simp add: py_round2_def Let_def f_def[symmetric])
  next
    case False
    from b[OF False] a show ?thesis
      by (auto simp: py_round2_def Let_def f_def[symmetric])
  qed
qed

lemma percent_bounds:
  assumes "0 \<le> x \<and> x \<le> (1::real)"
  shows "0 \<le> py_round2 (x * 100) \<and> py_round2 (x * 100) \<le> 100"
  by (rule py_round2_bounds) (use assms in simp_all)

lemma calculate_match_internal_bounds:
  assumes "calculate_match_internal sm fi now resume job = Inr r"
  shows "0 \<le> score_overall r \<and> score_overall r \<le> 100
       \<and> (\<forall>(k, v)\<in>set (score_details r). 0 \<le> v \<and> v \<le> 100) \<and> error r = None"
proof -
  from assms obtain x where
    x: "calculate_experience_match fi now (r_experience resume) job = Inr x"
    by (cases "calculate_experience_match fi now (r_experience resume) job")
       (simp_all add: calculate_match_internal_def Let_def)
  define ts where "ts = calculate_skills_match
      (dict_get (normalize_skills sm (r_skills resume)) ''technical'')
      (dict_get (normalize_skills sm (j_skills job)) ''technical'')"
  define ss where "ss = calculate_skills_match
      (dict_get (normalize_skills sm (r_skills resume)) ''soft'')
      (dict_get (normalize_skills sm (j_skills job)) ''soft'')"
  define es where "es = calculate_education_match (r_education resume) job"
  define js where "js = calculate_job_title_match (r_title resume) (j_title job)"
  define ov where "ov = ts * weights ''skills_technical'' + ss * weights ''skills_soft''
      + x * weights ''experience'' + es * weights ''education''
      + js * weights ''job_title_match''"
  have o: "score_overall r = py_round2 (min 100 (max 0 (ov * 100)))"
    and d: "score_details r =
      [(''technical_skills'', py_round2 (ts * 100)), (''soft_skills'', py_round2 (ss * 100)),
       (''experience'', py_round2 (x * 100)), (''education'', py_round2 (es * 100)),
       (''job_title'', py_round2 (js * 100))]"
    and e: "error r = None"
    using assms unfolding calculate_match_internal_def Let_def x ts_def ss_def es_def js_def ov_def
    by auto
  have 1: "0 \<le> py_round2 (ts * 100) \<and> py_round2 (ts * 100) \<le> 100"
    unfolding ts_def by (rule percent_bounds[OF skills_match_bounds])
  have 2: "0 \<le> py_round2 (ss * 100) \<and> py_round2 (ss * 100) \<le> 100"
    unfolding ss_def by (rule percent_bounds[OF skills_match_bounds])
  have 3: "0 \<le> py_round2 (x * 100) \<and> py_round2 (x * 100) \<le> 100"
    by (rule percent_bounds[OF experience_match_bounds[OF x]])
  have 4: "0 \<le> py_round2 (es * 100) \<and> py_round2 (es * 100) \<le> 100"
    unfolding es_def by (rule percent_bounds[OF education_match_bounds])
  have 5: "0 \<le> py_round2 (js * 100) \<and> py_round2 (js * 100) \<le> 100"
    unfolding js_def by (rule percent_bounds[OF job_title_match_bounds])
  have 6: "0 \<le> py_round2 (min 100 (max 0 (ov * 100)))
         \<and> py_round2 (min 100 (max 0 (ov * 100))) \<le> 100"
    by (rule py_round2_bounds) simp_all
  show ?thesis unfolding o d e using 1 2 3 4 5 6 by simp
qed

lemma claude_calculate_match_bounds:
  assumes "claude_calculate_match response = Inr r"
  shows "0 \<le> score_overall r \<and> score_overall r \<le> 100 \<and> error r = None"
  using assms
  by (auto simp: claude_calculate_match_def with_score_def
        split: sum.splits score_value.splits if_splits)

lemma error_result_fields:
  "score_overall (error_result e) = 0" "score_details (error_result e) = []"
  "error (error_result e) = Some (str e)"
  by (simp_all add: error_result_def)

lemma internal_or_error:
  "\<exists>r. (case calculate_match_internal sm fi now resume job of
            Inr match_result \<Rightarrow> Inr match_result
          | Inl e \<Rightarrow> Inr (error_result e)) = (Inr r :: py_error + match_result)
       \<and> 0 \<le> score_overall r \<and> score_overall r \<le> 100
       \<and> (\<forall>(k, v)\<in>set (score_details r). 0 \<le> v \<and> v \<le> 100)
       \<and> (isl (calculate_match_internal sm fi now resume job)
            \<longrightarrow> score_overall r = 0 \<and> error r \<noteq> None)"
proof (cases "calculate_match_internal sm fi now resume job")
  case (Inl e)
  then show ?thesis by (simp add: error_result_fields)
next
  case (Inr r)
  with calculate_match_internal_bounds[OF Inr] show ?thesis by simp
qed

text \<open>
  C2 as the claim states it fails: when the delegate answers, \<open>calculate_match\<close> returns
  its record with only \<open>score_overall\<close> brought into range; a \<open>score_details\<close> value of
  150 comes back as 150.
\<close>

theorem claude_score_details_counterexample:
  "calculate_match load_default_mappings example_fromisoformat ''2024-06-30T12:00:00''
     (Inr example_reply) example_resume example_job True
     = Inr (with_score example_reply 80)
   \<and> map_of (score_details (with_score example_reply 80)) ''technical_skills'' = Some 150
   \<and> \<not> (150 :: real) \<le> 100"
  by (simp add: calculate_match_def claude_calculate_match_def example_reply_def
        with_score_def Let_def)

text \<open>
  C2, amended. \<open>calculate_match\<close> always returns a record, never an exception, and its
  \<open>score_overall\<close> lies in [0, 100]. When the result is computed internally (the delegate
  is not used, or its call fails) every \<open>score_details\<close> value lies in [0, 100], and an
  exception of the internal computation gives \<open>score_overall\<close> = 0 with \<open>error\<close> set. When
  the delegate answers with a usable score, its \<open>score_details\<close> are returned as they came.
\<close>

theorem calculate_match_always_returns:
  "\<exists>r. calculate_match sm fi now response resume job use_claude = Inr r
       \<and> 0 \<le> score_overall r \<and> score_overall r \<le> 100
       \<and> (\<not> use_claude \<or> isl (claude_calculate_match response)
            \<longrightarrow> (\<forall>(k, v)\<in>set (score_details r). 0 \<le> v \<and> v \<le> 100))
       \<and> ((\<not> use_claude \<or> isl (claude_calculate_match response))
              \<and> isl (calculate_match_internal sm fi now resume job)
            \<longrightarrow> score_overall r = 0 \<and> error r \<noteq> None)
       \<and> (use_claude \<and> \<not> isl (claude_calculate_match response)
            \<longrightarrow> (\<exists>reply. response = Inr reply
                          \<and> score_details r = reply_score_details reply))"
proof (cases "use_claude \<and> \<not> isl (claude_calculate_match response)")
  case True
  then obtain r where r: "claude_calculate_match response = Inr r"
    by (cases "claude_calculate_match response") auto
  then obtain reply where reply: "response = Inr reply"
    by (cases response) (auto simp: claude_calculate_match_def)
  have d: "score_details r = reply_score_details reply"
    using r reply
    by (auto simp: claude_calculate_match_def with_score_def split: score_value.splits)
  have "calculate_match sm fi now response resume job use_claude = Inr r"
    using True r by (simp add: calculate_match_def Let_def)
  then show ?thesis
    using True claude_calculate_match_bounds[OF r] reply d by auto
next
  case False
  have c: "calculate_match sm fi now response resume job use_claude =
      (case calculate_match_internal sm fi now resume job of
            Inr match_result \<Rightarrow> Inr match_result
          | Inl e \<Rightarrow> Inr (error_result e))"
    using False
    by (cases "claude_calculate_match response") (auto simp: calculate_match_def Let_def)
  from internal_or_error[of sm fi now resume job] False
  show ?thesis unfolding c by auto
qed

lemma failing_internal:
  "calculate_match_internal load_default_mappings example_fromisoformat
     ''2024-06-30T12:00:00'' failing_resume example_job
   = Inl (AttributeError ([CHR 0x27] @ ''NoneType'' @ [CHR 0x27] @ '' object has no attribute ''
                           @ [CHR 0x27] @ ''replace'' @ [CHR 0x27]))"
  by code_simp

lemma failing_match:
  "calculate_match load_default_mappings example_fromisoformat ''2024-06-30T12:00:00''
     (Inl (Exception ''rate limit'')) failing_resume example_job True
   = Inr (error_result (AttributeError ([CHR 0x27] @ ''NoneType'' @ [CHR 0x27]
            @ '' object has no attribute '' @ [CHR 0x27] @ ''replace'' @ [CHR 0x27])))"
  by (simp add: calculate_match_def claude_calculate_match_def Let_def failing_internal)

theorem calculate_match_always_returns_witness:
  "isl (claude_calculate_match (Inl (Exception ''rate limit'')))
   \<and> isl (calculate_match_internal load_default_mappings example_fromisoformat
            ''2024-06-30T12:00:00'' failing_resume example_job)
   \<and> calculate_match load_default_mappings example_fromisoformat ''2024-06-30T12:00:00''
        (Inl (Exception ''rate limit'')) failing_resume example_job True
       = Inr (error_result (AttributeError ([CHR 0x27] @ ''NoneType'' @ [CHR 0x27]
                @ '' object has no attribute '' @ [CHR 0x27] @ ''replace'' @ [CHR 0x27])))
   \<and> score_overall (error_result (AttributeError ([CHR 0x27] @ ''NoneType'' @ [CHR 0x27]
                @ '' object has no attribute '' @ [CHR 0x27] @ ''replace'' @ [CHR 0x27]))) = 0
   \<and> error (error_result (AttributeError ([CHR 0x27] @ ''NoneType'' @ [CHR 0x27]
                @ '' object has no attribute '' @ [CHR 0x27] @ ''replace'' @ [CHR 0x27]))) \<noteq> None"
proof -
  note t = calculate_match_always_returns [of load_default_mappings example_fromisoformat
      "''2024-06-30T12:00:00''" "Inl (Exception ''rate limit'')" failing_resume example_job True]
  have h1: "isl (claude_calculate_match (Inl (Exception ''rate limit'')))"
    by (simp add: claude_calculate_match_def)
  have h2: "isl (calculate_match_internal load_default_mappings example_fromisoformat
            ''2024-06-30T12:00:00'' failing_resume example_job)"
    by (simp add: failing_internal)
  from t h1 h2 failing_match show ?thesis by auto
qed

subsection \<open>Canonical names\<close>

lemma normalize_vscode:
  "normalize_skill load_default_mappings ''vscode'' = ''Visual Studio Code''"
  by code_simp

lemma normalize_visual_studio_code:
  "normalize_skill load_default_mappings ''Visual Studio Code'' = ''Visual Studio''"
  by code_simp

text \<open>
  C1. With the default tables \<open>normalize_skill\<close> is not idempotent: the alias \<open>vscode\<close>
  is mapped to \<open>Visual Studio Code\<close>, whose lower-cased form is no key of the table, and
  the longest key contained in it, \<open>visual studio\<close>, sends it on to \<open>Visual Studio\<close>.
\<close>

theorem normalize_skill_vscode_twice:
  "normalize_skill load_default_mappings ''vscode'' = ''Visual Studio Code''
   \<and> normalize_skill load_default_mappings
         (normalize_skill load_default_mappings ''vscode'') = ''Visual Studio''
   \<and> normalize_skill load_default_mappings
         (normalize_skill load_default_mappings ''vscode'')
       \<noteq> normalize_skill load_default_mappings ''vscode''"
  by (simp add: normalize_vscode normalize_visual_studio_code)

end
